theory Spec2Isabelle
  imports Complex_Main "HOL-Library.Log_Nat"
begin

section \<open>The weather widget of \<^verbatim>\<open>weather-widget.js\<close>\<close>

text \<open>
  The development follows the class \<^verbatim>\<open>WeatherWidget\<close> method by method. JavaScript
  strings are kept as the UTF-8 bytes of the source file: an ASCII literal is an ordinary
  string literal, an emoji or the degree sign is the list of its bytes.

  What the platform does is an argument of the methods (the \<open>host\<close>), what the methods
  change is returned as the new widget, and what they throw is the left summand of their
  result. An asynchronous method is run to its end in one step: two cycles do not
  interleave. The container element, which the constructor looks up and no method reads,
  is left out, and the three elements of the display are taken to exist.
\<close>

subsection \<open>WeatherPresenter: the two lookup tables\<close>

text \<open>
  The glyphs of \<^verbatim>\<open>iconMap\<close>, named after their Unicode names. All but
  \<open>sun_behind_cloud\<close> carry the variation selector U+FE0F, as in the source.
\<close>

definition variation_selector :: string where
  "variation_selector = [CHR 0xEF, CHR 0xB8, CHR 0x8F]"

definition sun :: string where
  "sun = [CHR 0xE2, CHR 0x98, CHR 0x80] @ variation_selector"

definition sun_behind_small_cloud :: string where
  "sun_behind_small_cloud = [CHR 0xF0, CHR 0x9F, CHR 0x8C, CHR 0xA4] @ variation_selector"

definition sun_behind_cloud :: string where
  "sun_behind_cloud = [CHR 0xE2, CHR 0x9B, CHR 0x85]"

definition cloud :: string where
  "cloud = [CHR 0xE2, CHR 0x98, CHR 0x81] @ variation_selector"

definition fog :: string where
  "fog = [CHR 0xF0, CHR 0x9F, CHR 0x8C, CHR 0xAB] @ variation_selector"

definition sun_behind_rain_cloud :: string where
  "sun_behind_rain_cloud = [CHR 0xF0, CHR 0x9F, CHR 0x8C, CHR 0xA6] @ variation_selector"

definition cloud_with_rain :: string where
  "cloud_with_rain = [CHR 0xF0, CHR 0x9F, CHR 0x8C, CHR 0xA7] @ variation_selector"

definition cloud_with_snow :: string where
  "cloud_with_snow = [CHR 0xF0, CHR 0x9F, CHR 0x8C, CHR 0xA8] @ variation_selector"

definition cloud_with_lightning_and_rain :: string where
  "cloud_with_lightning_and_rain = [CHR 0xE2, CHR 0x9B, CHR 0x88] @ variation_selector"

text \<open>
  The object literals. Their keys are integer literals, and a weather code that is an
  integer selects the entry whose key is that integer.
\<close>

definition iconMap :: "(int \<times> string) list" where
  "iconMap =
    [(0, sun),
     (1, sun_behind_small_cloud),
     (2, sun_behind_cloud),
     (3, cloud),
     (45, fog),
     (48, fog),
     (51, sun_behind_rain_cloud),
     (53, sun_behind_rain_cloud),
     (55, sun_behind_rain_cloud),
     (61, cloud_with_rain),
     (63, cloud_with_rain),
     (65, cloud_with_rain),
     (71, cloud_with_snow),
     (73, cloud_with_snow),
     (75, cloud_with_snow),
     (95, cloud_with_lightning_and_rain),
     (96, cloud_with_lightning_and_rain),
     (99, cloud_with_lightning_and_rain)]"

definition descriptions :: "(int \<times> string) list" where
  "descriptions =
    [(0, ''Clear sky''),
     (1, ''Mainly clear''),
     (2, ''Partly cloudy''),
     (3, ''Overcast''),
     (45, ''Foggy''),
     (48, ''Foggy''),
     (51, ''Light drizzle''),
     (53, ''Drizzle''),
     (55, ''Heavy drizzle''),
     (61, ''Light rain''),
     (63, ''Rain''),
     (65, ''Heavy rain''),
     (71, ''Light snow''),
     (73, ''Snow''),
     (75, ''Heavy snow''),
     (95, ''Thunderstorm''),
     (96, ''Thunderstorm''),
     (99, ''Severe thunderstorm'')]"

text \<open>
  \<^verbatim>\<open>table[key] || fallback\<close> on strings: the fallback is taken when the key is absent
  (the lookup is \<^verbatim>\<open>undefined\<close>) and also when the entry is the empty string, which is
  falsy.
\<close>

definition lookup_or :: "(int \<times> string) list \<Rightarrow> int \<Rightarrow> string \<Rightarrow> string" where
  "lookup_or table key fallback =
     (case map_of table key of
        None \<Rightarrow> fallback
      | Some v \<Rightarrow> if v = [] then fallback else v)"

definition getWeatherIcon :: "int \<Rightarrow> string" where
  "getWeatherIcon weatherCode = lookup_or iconMap weatherCode sun_behind_small_cloud"

definition getWeatherDescription :: "int \<Rightarrow> string" where
  "getWeatherDescription weatherCode = lookup_or descriptions weatherCode ''Unknown''"

text \<open>The codes that are keys of both tables.\<close>

definition table_codes :: "int list" where
  "table_codes = [0, 1, 2, 3, 45, 48, 51, 53, 55, 61, 63, 65, 71, 73, 75, 95, 96, 99]"

text \<open>
  The table of descriptions in the words of the specification (section 4.3), for comparison
  with \<open>descriptions\<close>. The specification gives one wording for the codes 96 and 99.
\<close>

definition spec_descriptions :: "(int \<times> string) list" where
  "spec_descriptions =
    [(0, ''Clear sky''), (1, ''Mainly clear''), (2, ''Partly cloudy''), (3, ''Overcast''),
     (45, ''Foggy''), (48, ''Foggy''),
     (51, ''Light drizzle''), (53, ''Moderate drizzle''), (55, ''Dense drizzle''),
     (61, ''Light rain''), (63, ''Moderate rain''), (65, ''Heavy rain''),
     (71, ''Light snow''), (73, ''Moderate snow''), (75, ''Heavy snow''),
     (95, ''Thunderstorm''), (96, ''Thunderstorm with hail''), (99, ''Thunderstorm with hail'')]"

subsection \<open>Numbers\<close>

text \<open>
  A JavaScript Number is an IEEE 754 double. A finite double is kept as the rational number
  it denotes (the two zeros are one value: nothing here tells them apart), and every
  operation that rounds says so through \<open>round_to_double\<close>, which rounds a rational to the
  nearest double, ties to the even significand, and overflows to an infinity.
\<close>

datatype number = NaN | PlusInfinity | MinusInfinity | Finite rat

text \<open>The exponent of the power of two at or below a positive rational.\<close>

definition floor_log2 :: "rat \<Rightarrow> int" where
  "floor_log2 x = (if 1 \<le> x then bitlen \<lfloor>x\<rfloor> - 1 else - bitlen (\<lceil>1 / x\<rceil> - 1))"

definition round_half_even :: "rat \<Rightarrow> int" where
  "round_half_even q =
     (let f = \<lfloor>q\<rfloor>; r = q - of_int f
      in if r < 1 / 2 then f
         else if 1 / 2 < r then f + 1
         else if even f then f else f + 1)"

text \<open>
  Doubles have 53 significant bits; the least exponent of a unit in the last place is
  \<open>-1074\<close> (the subnormal range), and a magnitude that rounds to \<open>2 ^ 1024\<close> overflows.
\<close>

definition round_to_double :: "rat \<Rightarrow> number" where
  "round_to_double x =
     (if x = 0 then Finite 0
      else let e = max (floor_log2 \<bar>x\<bar> - 52) (- 1074);
               n = round_half_even (\<bar>x\<bar> / 2 powi e);
               y = of_int n * 2 powi e
           in if 2 ^ 1024 \<le> y then (if 0 < x then PlusInfinity else MinusInfinity)
              else Finite (sgn x * y))"

text \<open>A rational is a double when rounding leaves it as it is.\<close>

definition is_double :: "rat \<Rightarrow> bool" where
  "is_double x = (round_to_double x = Finite x)"

text \<open>A decimal literal of the source denotes the double nearest to it.\<close>

definition literal :: "rat \<Rightarrow> number" where
  "literal r = round_to_double r"

text \<open>The doubles nearest to 47.6062, to 122.3321 and to 0.1.\<close>

definition double_47_6062 :: rat where
  "double_47_6062 = 837497127267677 / 17592186044416"

definition double_122_3321 :: rat where
  "double_122_3321 = 4304178124808205 / 35184372088832"

definition double_0_1 :: rat where
  "double_0_1 = 3602879701896397 / 36028797018963968"

text \<open>Unary minus, the binary \<^verbatim>\<open>-\<close>, \<^verbatim>\<open><\<close>, \<^verbatim>\<open>Math.abs\<close> and \<^verbatim>\<open>Math.round\<close>.\<close>

fun negate :: "number \<Rightarrow> number" where
  "negate NaN = NaN"
| "negate PlusInfinity = MinusInfinity"
| "negate MinusInfinity = PlusInfinity"
| "negate (Finite a) = Finite (- a)"

fun subtract :: "number \<Rightarrow> number \<Rightarrow> number" where
  "subtract NaN _ = NaN"
| "subtract _ NaN = NaN"
| "subtract PlusInfinity PlusInfinity = NaN"
| "subtract MinusInfinity MinusInfinity = NaN"
| "subtract PlusInfinity _ = PlusInfinity"
| "subtract MinusInfinity _ = MinusInfinity"
| "subtract (Finite a) PlusInfinity = MinusInfinity"
| "subtract (Finite a) MinusInfinity = PlusInfinity"
| "subtract (Finite a) (Finite b) = round_to_double (a - b)"

fun number_less :: "number \<Rightarrow> number \<Rightarrow> bool" where
  "number_less NaN _ = False"
| "number_less _ NaN = False"
| "number_less PlusInfinity _ = False"
| "number_less _ MinusInfinity = False"
| "number_less MinusInfinity _ = True"
| "number_less (Finite a) PlusInfinity = True"
| "number_less (Finite a) (Finite b) = (a < b)"

fun Math_abs :: "number \<Rightarrow> number" where
  "Math_abs NaN = NaN"
| "Math_abs PlusInfinity = PlusInfinity"
| "Math_abs MinusInfinity = PlusInfinity"
| "Math_abs (Finite a) = Finite \<bar>a\<bar>"

text \<open>
  \<^verbatim>\<open>Math.round\<close> returns the integer closest to its argument, the one towards
  \<open>+\<infinity>\<close> at a tie; it is exact, since a double at or beyond \<open>2 ^ 52\<close> is an integer
  already.
\<close>

fun Math_round :: "number \<Rightarrow> number" where
  "Math_round (Finite a) = Finite (of_int \<lfloor>a + 1 / 2\<rfloor>)"
| "Math_round x = x"

text \<open>
  A property that may be missing is an option: \<open>None\<close> is \<^verbatim>\<open>undefined\<close>, and
  \<^verbatim>\<open>undefined\<close> converts to \<^verbatim>\<open>NaN\<close> where a Number is wanted.
\<close>

definition ToNumber :: "number option \<Rightarrow> number" where
  "ToNumber v = (case v of None \<Rightarrow> NaN | Some n \<Rightarrow> n)"

subsection \<open>Strings of numbers\<close>

definition digit :: "nat \<Rightarrow> char" where
  "digit d = ''0123456789'' ! d"

fun decimal :: "nat \<Rightarrow> string" where
  "decimal n = (if n < 10 then [digit n] else decimal (n div 10) @ [digit (n mod 10)])"

declare decimal.simps [simp del]

definition degree :: string where
  "degree = [CHR 0xC2, CHR 0xB0]"

subsection \<open>The data of the widget\<close>

text \<open>
  The values that can be thrown or be the reason of a rejected promise: the \<^verbatim>\<open>Error\<close>
  that \<^verbatim>\<open>fetchWeather\<close> constructs, with its message; the \<^verbatim>\<open>TypeError\<close> the
  language raises when a property of \<^verbatim>\<open>undefined\<close> is read or \<^verbatim>\<open>undefined\<close> is
  called; the \<^verbatim>\<open>SyntaxError\<close> of a body that is not JSON. Messages of the last two are
  not kept.
\<close>

datatype js_error = Error string | TypeError | SyntaxError

text \<open>
  A \<^verbatim>\<open>Date\<close> is kept as the expression that made it: \<^verbatim>\<open>new Date()\<close> with the
  reading of the clock, or \<^verbatim>\<open>new Date(v)\<close> with its argument, a string or
  \<^verbatim>\<open>undefined\<close>.
\<close>

datatype date = DateNow nat | NewDate "string option"

text \<open>
  The body of a response, after \<^verbatim>\<open>response.json()\<close>. Each property the widget reads
  is either missing or has the type the forecast service documents.
\<close>

record current_weather =
  temperature :: "number option"
  windspeed :: "number option"
  winddirection :: "number option"
  weathercode :: "int option"
  time :: "string option"

record hourly =
  relative_humidity_2m :: "number list option"

record daily =
  sunrise :: "string list option"
  sunset :: "string list option"

record response_data =
  latitude :: "number option"
  longitude :: "number option"
  current_weather :: "current_weather option"
  hourly :: "hourly option"
  daily :: "daily option"

text \<open>The object literal that \<^verbatim>\<open>processWeatherData\<close> returns.\<close>

record snapshot =
  temperature :: number
  windSpeed :: number
  windDirection :: "number option"
  weatherCode :: "int option"
  time :: date
  humidity :: "number option"
  sunrise :: date
  sunset :: date
  location :: string

text \<open>
  The host: what the platform answers during one cycle. \<open>geolocation\<close> is \<open>None\<close> when
  \<^verbatim>\<open>navigator.geolocation\<close> is absent and otherwise the callback that
  \<^verbatim>\<open>getCurrentPosition\<close> will make; \<open>fetch\<close> answers a request, given by its URL
  and its query parameters; the two clocks are the readings of \<^verbatim>\<open>new Date()\<close> in
  \<^verbatim>\<open>fetchWeather\<close> and in \<^verbatim>\<open>render\<close>; \<open>Number_toString\<close> is the exponent
  notation of a magnitude of \<open>10 ^ 21\<close> or more, which \<^verbatim>\<open>toFixed\<close> falls back on.
\<close>

datatype geo_outcome = Position number number | PositionError nat

datatype param = PNumber number | PBoolean bool | PString string

datatype body = BodyRejected js_error | Json response_data

datatype fetch_outcome = FetchRejected js_error | Response nat body

record host =
  geolocation :: "geo_outcome option"
  fetch :: "string \<Rightarrow> (string \<times> param) list \<Rightarrow> fetch_outcome"
  clock_fetch :: nat
  clock_render :: nat
  Number_toString :: "rat \<Rightarrow> string"

text \<open>What \<^verbatim>\<open>render\<close> interpolates into its template.\<close>

record rendered =
  shown :: snapshot
  timeString :: nat
  icon :: string
  description :: string

record element =
  display :: string
  innerHTML :: "rendered option"

record document =
  weather_loading :: element
  weather_content :: element
  weather_error :: element

record options =
  defaultLat :: "number option"
  defaultLon :: "number option"
  units :: "string option"
  updateInterval :: "nat option"

record config =
  defaultLat :: number
  defaultLon :: number
  units :: string
  updateInterval :: nat

text \<open>
  The widget, together with the state of the host that its methods change: the interval
  timers armed by \<^verbatim>\<open>setInterval\<close> (each with its period), the requests made to
  \<^verbatim>\<open>getCurrentPosition\<close> (each with its timeout) and the values logged by
  \<^verbatim>\<open>console.error\<close>.
\<close>

record widget =
  loadingEl :: element
  contentEl :: element
  errorEl :: element
  config :: config
  apiUrl :: string
  lastUpdate :: "date option"
  timers :: "nat list"
  geolocation_requests :: "nat list"
  console :: "js_error list"

subsection \<open>WeatherClient\<close>

text \<open>
  \<^verbatim>\<open>x.toFixed(1)\<close>: the sign, then the integer \<open>n\<close> nearest to ten times the magnitude
  (the larger at a tie), written with a point before its last digit.
\<close>

definition toFixed1 :: "host \<Rightarrow> number \<Rightarrow> string" where
  "toFixed1 h x =
     (case x of
        NaN \<Rightarrow> ''NaN''
      | PlusInfinity \<Rightarrow> ''Infinity''
      | MinusInfinity \<Rightarrow> ''-Infinity''
      | Finite r \<Rightarrow>
          (let s = (if r < 0 then ''-'' else []);
               a = \<bar>r\<bar>
           in if 10 ^ 21 \<le> a then s @ Number_toString h a
              else let n = nat \<lfloor>a * 10 + 1 / 2\<rfloor>;
                       m = decimal n;
                       m = (if length m \<le> 1 then ''0'' @ m else m);
                       k = length m
                   in s @ take (k - 1) m @ ''.'' @ drop (k - 1) m))"

definition getLocationName :: "host \<Rightarrow> number option \<Rightarrow> number option \<Rightarrow> js_error + string" where
  "getLocationName h lat lon =
     (if number_less (Math_abs (subtract (ToNumber lat) (literal (476062 / 10000)))) (literal (1 / 10))
         \<and> number_less (Math_abs (subtract (ToNumber lon) (negate (literal (1223321 / 10000)))))
               (literal (1 / 10))
      then Inr ''Seattle, WA''
      else case lat of
             None \<Rightarrow> Inl TypeError
           | Some lat \<Rightarrow>
               (case lon of
                  None \<Rightarrow> Inl TypeError
                | Some lon \<Rightarrow> Inr (toFixed1 h lat @ degree @ '', '' @ toFixed1 h lon @ degree)))"

text \<open>\<^verbatim>\<open>xs[0]\<close>, which is \<^verbatim>\<open>undefined\<close> on the empty array.\<close>

definition first :: "'a list \<Rightarrow> 'a option" where
  "first xs = (case xs of [] \<Rightarrow> None | x # _ \<Rightarrow> Some x)"

text \<open>
  Reading a property of a missing object raises a \<^verbatim>\<open>TypeError\<close>, in the order in which
  the object literal evaluates its properties.
\<close>

definition processWeatherData :: "host \<Rightarrow> response_data \<Rightarrow> js_error + snapshot" where
  "processWeatherData h data =
     (case current_weather data of
        None \<Rightarrow> Inl TypeError
      | Some current \<Rightarrow>
     (case hourly data of
        None \<Rightarrow> Inl TypeError
      | Some hourly' \<Rightarrow>
     (case relative_humidity_2m hourly' of
        None \<Rightarrow> Inl TypeError
      | Some humidities \<Rightarrow>
     (case daily data of
        None \<Rightarrow> Inl TypeError
      | Some daily' \<Rightarrow>
     (case daily.sunrise daily' of
        None \<Rightarrow> Inl TypeError
      | Some sunrises \<Rightarrow>
     (case daily.sunset daily' of
        None \<Rightarrow> Inl TypeError
      | Some sunsets \<Rightarrow>
     (case getLocationName h (latitude data) (longitude data) of
        Inl e \<Rightarrow> Inl e
      | Inr name \<Rightarrow>
          Inr \<lparr>temperature = Math_round (ToNumber (current_weather.temperature current)),
               windSpeed = Math_round (ToNumber (windspeed current)),
               windDirection = winddirection current,
               weatherCode = weathercode current,
               time = NewDate (current_weather.time current),
               humidity = first humidities,
               sunrise = NewDate (first sunrises),
               sunset = NewDate (first sunsets),
               location = name\<rparr>)))))))"

text \<open>\<^verbatim>\<open>response.ok\<close>: the status is in the range 200 to 299.\<close>

definition ok :: "nat \<Rightarrow> bool" where
  "ok status = (200 \<le> status \<and> status \<le> 299)"

definition params :: "number \<Rightarrow> number \<Rightarrow> (string \<times> param) list" where
  "params lat lon =
     [(''latitude'', PNumber lat),
      (''longitude'', PNumber lon),
      (''current_weather'', PBoolean True),
      (''hourly'', PString ''temperature_2m,relative_humidity_2m,wind_speed_10m''),
      (''daily'', PString ''sunrise,sunset''),
      (''timezone'', PString ''auto'')]"

definition fetchWeather :: "host \<Rightarrow> number \<Rightarrow> number \<Rightarrow> widget \<Rightarrow> widget \<times> (js_error + snapshot)" where
  "fetchWeather h lat lon w =
     (case fetch h (apiUrl w) (params lat lon) of
        FetchRejected e \<Rightarrow> (w, Inl e)
      | Response status body \<Rightarrow>
          if \<not> ok status then (w, Inl (Error (''Weather API error: '' @ decimal status)))
          else case body of
                 BodyRejected e \<Rightarrow> (w, Inl e)
               | Json data \<Rightarrow>
                   (let w = w\<lparr>lastUpdate := Some (DateNow (clock_fetch h))\<rparr>
                    in (w, processWeatherData h data)))"

subsection \<open>LocationResolver\<close>

record coords =
  lat :: number
  lon :: number

definition getLocation :: "host \<Rightarrow> widget \<Rightarrow> widget \<times> coords" where
  "getLocation h w =
     (case geolocation h of
        Some outcome \<Rightarrow>
          (let w' = w\<lparr>geolocation_requests := geolocation_requests w @ [5000]\<rparr>
           in case outcome of
                Position position_latitude position_longitude \<Rightarrow>
                  (w', \<lparr>lat = position_latitude, lon = position_longitude\<rparr>)
              | PositionError _ \<Rightarrow>
                  (w', \<lparr>lat = config.defaultLat (config w), lon = config.defaultLon (config w)\<rparr>))
      | None \<Rightarrow>
          (w, \<lparr>lat = config.defaultLat (config w), lon = config.defaultLon (config w)\<rparr>))"

subsection \<open>WidgetController\<close>

definition showLoading :: "widget \<Rightarrow> widget" where
  "showLoading w =
     w\<lparr>loadingEl := (loadingEl w)\<lparr>display := ''block''\<rparr>,
       contentEl := (contentEl w)\<lparr>display := ''none''\<rparr>,
       errorEl := (errorEl w)\<lparr>display := ''none''\<rparr>\<rparr>"

definition showContent :: "widget \<Rightarrow> widget" where
  "showContent w =
     w\<lparr>loadingEl := (loadingEl w)\<lparr>display := ''none''\<rparr>,
       contentEl := (contentEl w)\<lparr>display := ''block''\<rparr>,
       errorEl := (errorEl w)\<lparr>display := ''none''\<rparr>\<rparr>"

definition showError :: "widget \<Rightarrow> widget" where
  "showError w =
     w\<lparr>loadingEl := (loadingEl w)\<lparr>display := ''none''\<rparr>,
       contentEl := (contentEl w)\<lparr>display := ''none''\<rparr>,
       errorEl := (errorEl w)\<lparr>display := ''block''\<rparr>\<rparr>"

text \<open>
  \<^verbatim>\<open>render\<close> replaces the markup of the content element. A weather code that is
  \<^verbatim>\<open>undefined\<close> is a key of neither table, so both lookups fall back.
\<close>

definition render :: "host \<Rightarrow> snapshot \<Rightarrow> widget \<Rightarrow> widget" where
  "render h weatherData w =
     w\<lparr>contentEl := (contentEl w)
        \<lparr>innerHTML := Some
           \<lparr>shown = weatherData,
            timeString = clock_render h,
            icon = (case weatherCode weatherData of
                      Some code \<Rightarrow> getWeatherIcon code
                    | None \<Rightarrow> sun_behind_small_cloud),
            description = (case weatherCode weatherData of
                             Some code \<Rightarrow> getWeatherDescription code
                           | None \<Rightarrow> ''Unknown'')\<rparr>\<rparr>\<rparr>"

definition setupAutoRefresh :: "widget \<Rightarrow> widget" where
  "setupAutoRefresh w = w\<lparr>timers := timers w @ [config.updateInterval (config w)]\<rparr>"

definition console_error :: "js_error \<Rightarrow> widget \<Rightarrow> widget" where
  "console_error e w = w\<lparr>console := console w @ [e]\<rparr>"

text \<open>
  One cycle, run to its end: the body of \<^verbatim>\<open>init\<close>, with the \<^verbatim>\<open>catch\<close> clause as
  the branch of a failed fetch. A tick of an armed timer runs \<open>init\<close> again.
\<close>

definition init :: "host \<Rightarrow> widget \<Rightarrow> widget" where
  "init h w =
     (let w = showLoading w;
          (w, coords) = getLocation h w;
          (w, weatherData) = fetchWeather h (lat coords) (lon coords) w
      in case weatherData of
           Inr weatherData \<Rightarrow> setupAutoRefresh (showContent (render h weatherData w))
         | Inl error \<Rightarrow> showError (console_error error w))"

text \<open>
  The constructor: the three elements of the document, the default configuration overridden
  by the options that are given, and then the first cycle.
\<close>

definition constructed :: "document \<Rightarrow> options \<Rightarrow> widget" where
  "constructed document options =
     \<lparr>loadingEl = weather_loading document,
      contentEl = weather_content document,
      errorEl = weather_error document,
      config =
        \<lparr>defaultLat = (case options.defaultLat options of
                         None \<Rightarrow> literal (476062 / 10000) | Some v \<Rightarrow> v),
         defaultLon = (case options.defaultLon options of
                         None \<Rightarrow> negate (literal (1223321 / 10000)) | Some v \<Rightarrow> v),
         units = (case options.units options of None \<Rightarrow> ''celsius'' | Some v \<Rightarrow> v),
         updateInterval = (case options.updateInterval options of
                             None \<Rightarrow> 10 * 60 * 1000 | Some v \<Rightarrow> v)\<rparr>,
      apiUrl = ''https://api.open-meteo.com/v1/forecast'',
      lastUpdate = None,
      timers = [],
      geolocation_requests = [],
      console = []\<rparr>"

definition WeatherWidget :: "host \<Rightarrow> document \<Rightarrow> options \<Rightarrow> widget" where
  "WeatherWidget h document options = init h (constructed document options)"

subsection \<open>Notions of the specification\<close>

text \<open>An element is hidden when its \<^verbatim>\<open>style.display\<close> is \<^verbatim>\<open>none\<close>.\<close>

definition visible :: "element \<Rightarrow> bool" where
  "visible el = (display el \<noteq> ''none'')"

datatype display_state = Loading | Content | Failed

definition display_state :: "widget \<Rightarrow> display_state option" where
  "display_state w =
     (case (visible (loadingEl w), visible (contentEl w), visible (errorEl w)) of
        (True, False, False) \<Rightarrow> Some Loading
      | (False, True, False) \<Rightarrow> Some Content
      | (False, False, True) \<Rightarrow> Some Failed
      | _ \<Rightarrow> None)"

definition exactly_one_visible :: "widget \<Rightarrow> bool" where
  "exactly_one_visible w =
     (length (filter visible [loadingEl w, contentEl w, errorEl w]) = 1)"

text \<open>A Number is an integer when it is finite and has no fractional part.\<close>

definition is_integer :: "number \<Rightarrow> bool" where
  "is_integer x = (case x of Finite r \<Rightarrow> of_int \<lfloor>r\<rfloor> = r | _ \<Rightarrow> False)"

text \<open>Two widgets show the same when their three elements have the same \<^verbatim>\<open>style.display\<close>.\<close>

definition same_display :: "widget \<Rightarrow> widget \<Rightarrow> bool" where
  "same_display w w' =
     (display (loadingEl w') = display (loadingEl w)
      \<and> display (contentEl w') = display (contentEl w)
      \<and> display (errorEl w') = display (errorEl w))"

text \<open>
  The responses on which \<^verbatim>\<open>processWeatherData\<close> reads a property of
  \<^verbatim>\<open>undefined\<close>: an object or an array it reads from is missing, or a coordinate on
  which it calls \<^verbatim>\<open>toFixed\<close>.
\<close>

definition unreadable :: "response_data \<Rightarrow> bool" where
  "unreadable data =
     (current_weather data = None
      \<or> (case hourly data of None \<Rightarrow> True | Some h \<Rightarrow> relative_humidity_2m h = None)
      \<or> (case daily data of
            None \<Rightarrow> True
          | Some d \<Rightarrow> daily.sunrise d = None \<or> daily.sunset d = None)
      \<or> latitude data = None
      \<or> longitude data = None)"

text \<open>
  The responses that lack a property of the shape the specification documents (section 6):
  the unreadable ones, and those that lack a property of \<^verbatim>\<open>current_weather\<close>.
\<close>

definition missing_expected_field :: "response_data \<Rightarrow> bool" where
  "missing_expected_field data =
     (unreadable data
      \<or> (case current_weather data of
            None \<Rightarrow> True
          | Some c \<Rightarrow>
              current_weather.temperature c = None \<or> windspeed c = None
              \<or> winddirection c = None \<or> weathercode c = None
              \<or> current_weather.time c = None))"

text \<open>
  The label in the words of the specification (section 4.2): the friendly label when the
  coordinates are within 0.1 degrees of the configured default location in both axes, and
  the two coordinates to one decimal otherwise.
\<close>

definition spec_locationLabel :: "host \<Rightarrow> config \<Rightarrow> number \<Rightarrow> number \<Rightarrow> string" where
  "spec_locationLabel h cfg latitude' longitude' =
     (if number_less (Math_abs (subtract latitude' (config.defaultLat cfg))) (literal (1 / 10))
         \<and> number_less (Math_abs (subtract longitude' (config.defaultLon cfg))) (literal (1 / 10))
      then ''Seattle, WA''
      else toFixed1 h latitude' @ degree @ '', '' @ toFixed1 h longitude' @ degree)"

subsection \<open>Example hosts and responses\<close>

text \<open>A response with every property of the documented shape.\<close>

definition full_current :: current_weather where
  "full_current =
     \<lparr>current_weather.temperature = Some (literal (216 / 10)),
      windspeed = Some (Finite (25 / 2)),
      winddirection = Some (Finite 270),
      weathercode = Some 61,
      current_weather.time = Some ''2024-05-01T12:00''\<rparr>"

definition full_response :: response_data where
  "full_response =
     \<lparr>latitude = Some (Finite (163 / 4)),
      longitude = Some (Finite (- 74)),
      current_weather = Some full_current,
      hourly = Some \<lparr>relative_humidity_2m = Some [Finite 81, Finite 64, Finite 55]\<rparr>,
      daily = Some \<lparr>daily.sunrise = Some [''2024-05-01T05:55'', ''2024-05-02T05:54''],
                    daily.sunset = Some [''2024-05-01T19:50'', ''2024-05-02T19:51'']\<rparr>\<rparr>"

text \<open>A host without geolocation whose forecast service answers 200 with a given body.\<close>

definition host_answering :: "body \<Rightarrow> host" where
  "host_answering b =
     \<lparr>geolocation = None,
      fetch = (\<lambda>url query. Response 200 b),
      clock_fetch = 1714564800,
      clock_render = 1714564801,
      Number_toString = (\<lambda>x. ''1e+21'')\<rparr>"

text \<open>A host whose network is down, and one whose service answers 503.\<close>

definition host_offline :: host where
  "host_offline = (host_answering (BodyRejected SyntaxError))
     \<lparr>fetch := (\<lambda>url query. FetchRejected TypeError)\<rparr>"

definition host_unavailable :: host where
  "host_unavailable = (host_answering (BodyRejected SyntaxError))
     \<lparr>fetch := (\<lambda>url query. Response 503 (BodyRejected SyntaxError))\<rparr>"

definition blank :: element where
  "blank = \<lparr>display = [], innerHTML = None\<rparr>"

definition page :: document where
  "page = \<lparr>weather_loading = blank, weather_content = blank, weather_error = blank\<rparr>"

definition no_options :: options where
  "no_options =
     \<lparr>options.defaultLat = None, options.defaultLon = None, options.units = None,
      options.updateInterval = None\<rparr>"

text \<open>A configuration whose default location is New York (40.7128, -74.006).\<close>

definition new_york :: config where
  "new_york =
     \<lparr>defaultLat = literal (407128 / 10000),
      defaultLon = negate (literal (74006 / 1000)),
      units = ''celsius'',
      updateInterval = 600000\<rparr>"

text \<open>The full response with the temperature removed.\<close>

definition no_temperature :: response_data where
  "no_temperature =
     full_response\<lparr>current_weather :=
       Some (full_current\<lparr>current_weather.temperature := None\<rparr>)\<rparr>"

text \<open>The full response with \<^verbatim>\<open>current_weather\<close> removed.\<close>

definition no_current :: response_data where
  "no_current = full_response\<lparr>current_weather := None\<rparr>"

text \<open>A response that reports the coordinates of New York.\<close>

definition new_york_response :: response_data where
  "new_york_response =
     full_response\<lparr>latitude := Some (literal (407128 / 10000)),
                    longitude := Some (negate (literal (74006 / 1000)))\<rparr>"

section \<open>Lemmas\<close>

subsection \<open>The lookup tables\<close>

lemmas glyph_defs = variation_selector_def sun_def sun_behind_small_cloud_def sun_behind_cloud_def
  cloud_def fog_def sun_behind_rain_cloud_def cloud_with_rain_def cloud_with_snow_def
  cloud_with_lightning_and_rain_def

lemma iconMap_absent: "c \<notin> set table_codes \<Longrightarrow> map_of iconMap c = None"
  by (simp add: iconMap_def table_codes_def)

lemma descriptions_absent: "c \<notin> set table_codes \<Longrightarrow> map_of descriptions c = None"
  by (simp add: descriptions_def table_codes_def)

subsection \<open>Rounding to a double\<close>

text \<open>
  \<open>floor_log2\<close> is the exponent of the binade of a positive rational; a rational with a
  significand of at most 53 bits and an exponent in range is a double; and rounding never
  brings a value that is at least a double \<open>d\<close> in magnitude below \<open>d\<close>.
\<close>

lemma bitlen_pos: "0 < n \<Longrightarrow> 1 \<le> bitlen n"
  by (simp add: bitlen_alt_def)

lemma floor_log2_bounds:
  assumes "0 < x"
  shows "2 powi floor_log2 x \<le> x" and "x < 2 powi (floor_log2 x + 1)"
proof -
  have "2 powi floor_log2 x \<le> x \<and> x < 2 powi (floor_log2 x + 1)"
  proof (cases "1 \<le> x")
    case True
    define n where "n = \<lfloor>x\<rfloor>"
    have n: "0 < n" "of_int n \<le> x" "x < of_int n + 1"
      using True by (simp_all add: n_def) linarith+
    define b where "b = bitlen n"
    have b: "1 \<le> b" using n(1) by (simp add: b_def bitlen_pos)
    have bb: "2 ^ nat (b - 1) \<le> n" "n < 2 ^ nat b"
      using bitlen_bounds [OF n(1)] by (simp_all add: b_def)
    have fl: "floor_log2 x = b - 1"
      using True by (simp add: floor_log2_def b_def n_def)
    have lo: "(2::rat) powi (b - 1) = 2 ^ nat (b - 1)"
      using b by (simp add: power_int_nonneg_exp)
    have hi: "(2::rat) powi b = 2 ^ nat b"
      using b by (simp add: power_int_nonneg_exp)
    have "(of_int (2 ^ nat (b - 1)) :: rat) \<le> of_int n"
      using bb(1) by (simp only: of_int_le_iff)
    then have 1: "(2::rat) ^ nat (b - 1) \<le> of_int n" by simp
    have "n + 1 \<le> 2 ^ nat b" using bb(2) by linarith
    then have "(of_int (n + 1) :: rat) \<le> of_int (2 ^ nat b)"
      by (simp only: of_int_le_iff)
    then have 2: "(of_int n :: rat) + 1 \<le> 2 ^ nat b" by simp
    have "2 powi (b - 1) \<le> x" unfolding lo using 1 n(2) by linarith
    moreover have "x < 2 powi b" unfolding hi using 2 n(3) by linarith
    ultimately show ?thesis by (simp add: fl)
  next
    case False
    define y where "y = 1 / x"
    have y: "1 < y" "x = 1 / y" using assms False by (simp_all add: y_def)
    define m where "m = \<lceil>y\<rceil> - 1"
    have m: "0 < m" "of_int m < y" "y \<le> of_int m + 1"
      using y(1) by (simp_all add: m_def) linarith+
    define b where "b = bitlen m"
    have b: "1 \<le> b" using m(1) by (simp add: b_def bitlen_pos)
    have bb: "2 ^ nat (b - 1) \<le> m" "m < 2 ^ nat b"
      using bitlen_bounds [OF m(1)] by (simp_all add: b_def)
    have fl: "floor_log2 x = - b"
      using False by (simp add: floor_log2_def b_def m_def y_def)
    have lo: "(2::rat) powi (- b) = 1 / 2 ^ nat b"
      using b by (simp add: power_int_minus_divide power_int_nonneg_exp)
    have hi: "(2::rat) powi (- b + 1) = 1 / 2 ^ nat (b - 1)"
    proof -
      have "(2::rat) powi (- b + 1) = 2 powi (- (b - 1))" by simp
      also have "\<dots> = 1 / 2 ^ nat (b - 1)"
        using b by (simp only: power_int_minus_divide) (simp add: power_int_nonneg_exp)
      finally show ?thesis .
    qed
    have "(of_int (2 ^ nat (b - 1)) :: rat) \<le> of_int m"
      using bb(1) by (simp only: of_int_le_iff)
    then have "(2::rat) ^ nat (b - 1) \<le> of_int m" by simp
    then have up: "(2::rat) ^ nat (b - 1) < y" using m(2) by linarith
    have "m + 1 \<le> 2 ^ nat b" using bb(2) by linarith
    then have "(of_int (m + 1) :: rat) \<le> of_int (2 ^ nat b)"
      by (simp only: of_int_le_iff)
    then have "(of_int m :: rat) + 1 \<le> 2 ^ nat b" by simp
    then have dn: "y \<le> 2 ^ nat b" using m(3) by linarith
    have "1 / 2 ^ nat b \<le> 1 / y"
      using dn y(1) by (intro divide_left_mono) auto
    then have 1: "2 powi (- b) \<le> x" by (simp only: lo y(2))
    have "1 / y < 1 / 2 ^ nat (b - 1)"
      using up y(1) by (intro divide_strict_left_mono) (auto intro: mult_pos_pos)
    then have 2: "x < 2 powi (- b + 1)" by (simp only: hi y(2))
    from 1 2 show ?thesis by (simp only: fl)
  qed
  then show "2 powi floor_log2 x \<le> x" and "x < 2 powi (floor_log2 x + 1)" by blast+
qed

lemma floor_log2_eqI:
  assumes "2 powi k \<le> x" "x < 2 powi (k + 1)"
  shows "floor_log2 x = k"
proof -
  have pos: "0 < x" using assms(1) by (smt (verit) zero_less_power_int zero_less_numeral less_le_trans)
  note b = floor_log2_bounds [OF pos]
  have "(2::rat) powi k < 2 powi (floor_log2 x + 1)" using assms(1) b(2) by linarith
  then have 1: "k < floor_log2 x + 1"
    by (metis linorder_not_less one_less_numeral_iff power_int_increasing semiring_norm(76) less_imp_le)
  have "(2::rat) powi floor_log2 x < 2 powi (k + 1)" using assms(2) b(1) by linarith
  then have 2: "floor_log2 x < k + 1"
    by (metis linorder_not_less one_less_numeral_iff power_int_increasing semiring_norm(76) less_imp_le)
  from 1 2 show ?thesis by linarith
qed

lemma floor_log2_mono:
  assumes "0 < a" "a \<le> b"
  shows "floor_log2 a \<le> floor_log2 b"
proof -
  have "0 < b" using assms by linarith
  have "(2::rat) powi floor_log2 a < 2 powi (floor_log2 b + 1)"
    using floor_log2_bounds(1) [OF assms(1)] floor_log2_bounds(2) [OF \<open>0 < b\<close>] assms(2) by linarith
  then have "floor_log2 a < floor_log2 b + 1"
    by (metis linorder_not_less one_less_numeral_iff power_int_increasing semiring_norm(76) less_imp_le)
  then show ?thesis by linarith
qed

lemma round_half_even_of_int: "round_half_even (of_int n) = n"
  by (simp add: round_half_even_def)

lemma round_half_even_ge:
  assumes "of_int m \<le> q"
  shows "m \<le> round_half_even q"
proof -
  have "m \<le> \<lfloor>q\<rfloor>" using assms by (simp add: le_floor_iff)
  moreover have "\<lfloor>q\<rfloor> \<le> round_half_even q"
    by (simp add: round_half_even_def Let_def)
  ultimately show ?thesis by linarith
qed

lemma round_half_even_eqI:
  assumes "\<bar>q - of_int n\<bar> < 1 / 2"
  shows "round_half_even q = n"
proof (cases "of_int n \<le> q")
  case True
  then have "\<lfloor>q\<rfloor> = n" using assms by (intro floor_unique) linarith+
  then show ?thesis using assms True by (simp add: round_half_even_def Let_def)
next
  case False
  then have "of_int (n - 1) \<le> q" "q < of_int (n - 1) + 1" using assms by simp_all
  then have "\<lfloor>q\<rfloor> = n - 1" by (rule floor_unique)
  then show ?thesis using assms False by (simp add: round_half_even_def Let_def)
qed

lemma powi2_less_cancel: "(2::rat) powi a < 2 powi b \<Longrightarrow> a < b"
  by (metis linorder_not_less one_less_numeral_iff power_int_increasing semiring_norm(76) less_imp_le)

lemma powi2_split: "(2::rat) powi (a + b) = 2 powi a * 2 powi b"
  by (simp add: power_int_add)

lemma powi2_diff: "(2::rat) powi (a - b) = 2 powi a / 2 powi b"
  by (simp add: power_int_diff)

lemma round_to_double_representable:
  assumes x: "x = of_int m * 2 powi e" and m: "\<bar>m\<bar> < 2 ^ 53" and e: "- 1074 \<le> e"
    and fin: "\<bar>x\<bar> < 2 ^ 1024"
  shows "round_to_double x = Finite x"
proof (cases "x = 0")
  case True
  then show ?thesis by (simp add: round_to_double_def)
next
  case False
  then have pos: "0 < \<bar>x\<bar>" by simp
  define L where "L = floor_log2 \<bar>x\<bar>"
  define E where "E = max (L - 52) (- 1074)"
  have ax: "\<bar>x\<bar> = of_int \<bar>m\<bar> * 2 powi e"
    by (simp add: x abs_mult)
  have "(of_int \<bar>m\<bar> :: rat) < of_int (2 ^ 53)" using m by (simp only: of_int_less_iff)
  then have "(of_int \<bar>m\<bar> :: rat) < 2 powi 53" by simp
  then have "\<bar>x\<bar> < 2 powi 53 * 2 powi e"
    unfolding ax by (intro mult_strict_right_mono) simp_all
  then have "\<bar>x\<bar> < 2 powi (53 + e)" by (simp only: powi2_split)
  then have "(2::rat) powi L < 2 powi (53 + e)"
    using floor_log2_bounds(1) [OF pos] unfolding L_def by linarith
  then have "L < 53 + e" by (rule powi2_less_cancel)
  then have Ee: "E \<le> e" using e by (simp add: E_def)
  define k where "k = nat (e - E)"
  have ek: "e = int k + E" using Ee by (simp add: k_def)
  have "\<bar>x\<bar> / 2 powi E = of_int \<bar>m\<bar> * (2 powi e / 2 powi E)" by (simp add: ax)
  also have "2 powi e / 2 powi E = (2::rat) powi (e - E)" by (simp only: powi2_diff)
  also have "\<dots> = 2 ^ k" using Ee by (simp add: k_def power_int_nonneg_exp)
  also have "of_int \<bar>m\<bar> * 2 ^ k = (of_int (\<bar>m\<bar> * 2 ^ k) :: rat)" by simp
  finally have q: "\<bar>x\<bar> / 2 powi E = of_int (\<bar>m\<bar> * 2 ^ k)" .
  have n: "round_half_even (\<bar>x\<bar> / 2 powi E) = \<bar>m\<bar> * 2 ^ k"
    unfolding q by (rule round_half_even_of_int)
  have y: "of_int (\<bar>m\<bar> * 2 ^ k) * 2 powi E = \<bar>x\<bar>"
    using q by (metis nonzero_eq_divide_eq power_int_eq_0_iff zero_neq_numeral)
  have "round_to_double x = Finite (sgn x * \<bar>x\<bar>)"
    using False fin
    by (simp add: round_to_double_def Let_def L_def [symmetric] E_def [symmetric] n y
        del: of_int_mult of_int_power)
  then show ?thesis by (simp only: sgn_mult_abs)
qed

lemma is_double_dyadic:
  assumes "\<bar>m\<bar> < 2 ^ 53" "- 1074 \<le> e" "e \<le> 970"
  shows "is_double (of_int m * 2 powi e)"
proof -
  have "(of_int \<bar>m\<bar> :: rat) < of_int (2 ^ 53)" using assms(1) by (simp only: of_int_less_iff)
  then have "(of_int \<bar>m\<bar> :: rat) < 2 powi 53" by simp
  then have "(of_int \<bar>m\<bar> :: rat) * 2 powi e < 2 powi 53 * 2 powi e"
    by (intro mult_strict_right_mono) simp_all
  also have "\<dots> = 2 powi (53 + e)" by (simp only: powi2_split)
  also have "\<dots> \<le> 2 powi 1024" using assms(3) by (intro power_int_increasing) simp_all
  finally have "\<bar>of_int m * 2 powi e :: rat\<bar> < 2 ^ 1024" by (simp add: abs_mult)
  with refl assms(1,2) have "round_to_double (of_int m * 2 powi e) = Finite (of_int m * 2 powi e)"
    by (rule round_to_double_representable)
  then show ?thesis by (simp add: is_double_def)
qed

lemma round_to_double_far:
  assumes d: "0 < d" "d = of_int md * 2 powi (floor_log2 d - 52)" "- 1074 \<le> floor_log2 d - 52"
    and far: "d \<le> \<bar>y\<bar>"
  shows "\<not> number_less (Math_abs (round_to_double y)) (Finite d)"
proof -
  have pos: "0 < \<bar>y\<bar>" and y0: "y \<noteq> 0" using d(1) far by auto
  define L where "L = floor_log2 \<bar>y\<bar>"
  define Ld where "Ld = floor_log2 d"
  have LdL: "Ld \<le> L" unfolding L_def Ld_def using d(1) far by (rule floor_log2_mono)
  define E where "E = L - 52"
  have E: "max (L - 52) (- 1074) = E" using LdL d(3) by (simp add: E_def Ld_def)
  define q :: rat where "q = \<bar>y\<bar> / 2 powi E"
  define n where "n = round_half_even q"
  define Y :: rat where "Y = of_int n * 2 powi E"
  have p: "(0::rat) < 2 powi E" by simp
  have dY: "d \<le> Y"
  proof (cases "L = Ld")
    case True
    then have dE: "d = of_int md * 2 powi E" using d(2) by (simp add: E_def Ld_def)
    have "d / 2 powi E \<le> q" unfolding q_def using far p by (simp add: divide_right_mono)
    moreover have "d / 2 powi E = of_int md" using p by (simp add: dE)
    ultimately have "md \<le> n" unfolding n_def by (simp add: round_half_even_ge)
    then have "(of_int md :: rat) \<le> of_int n" by (simp only: of_int_le_iff)
    then have "(of_int md :: rat) * 2 powi E \<le> of_int n * 2 powi E"
      using p by (simp add: mult_right_mono)
    then show ?thesis by (simp only: dE Y_def)
  next
    case False
    then have lt: "Ld + 1 \<le> L" using LdL by linarith
    have "2 powi L \<le> \<bar>y\<bar>" unfolding L_def using pos by (rule floor_log2_bounds(1))
    then have "2 powi L / 2 powi E \<le> q" unfolding q_def using p by (simp add: divide_right_mono)
    moreover have "(2::rat) powi L / 2 powi E = 2 powi (L - E)" by (simp only: powi2_diff)
    moreover have "(2::rat) powi (L - E) = of_int (2 ^ 52)" by (simp add: E_def)
    ultimately have "of_int (2 ^ 52) \<le> q" by simp
    then have "2 ^ 52 \<le> n" unfolding n_def by (rule round_half_even_ge)
    then have "(of_int (2 ^ 52) :: rat) \<le> of_int n" by (simp only: of_int_le_iff)
    then have "of_int (2 ^ 52) * 2 powi E \<le> Y"
      unfolding Y_def using p by (simp add: mult_right_mono)
    moreover have "(of_int (2 ^ 52) :: rat) * 2 powi E = 2 powi (52 + E)"
      by (simp only: powi2_split) simp
    moreover have "52 + E = L" by (simp add: E_def)
    ultimately have "2 powi L \<le> Y" by simp
    moreover have "(2::rat) powi (Ld + 1) \<le> 2 powi L"
      using lt by (intro power_int_increasing) simp_all
    moreover have "d < 2 powi (Ld + 1)" unfolding Ld_def using d(1) by (rule floor_log2_bounds(2))
    ultimately show ?thesis by linarith
  qed
  have Y0: "0 \<le> Y" using dY d(1) by linarith
  have r: "round_to_double y =
      (if 2 ^ 1024 \<le> Y then (if 0 < y then PlusInfinity else MinusInfinity)
       else Finite (sgn y * Y))"
    using y0 by (simp add: round_to_double_def Let_def L_def [symmetric] E q_def [symmetric]
        n_def [symmetric] Y_def [symmetric])
  have "\<bar>sgn y * Y\<bar> = Y" using y0 Y0 by (simp add: abs_mult)
  then show ?thesis using dY by (simp add: r)
qed

lemma nearest_double:
  fixes x :: rat
  assumes "0 < x" "2 powi L \<le> x" "x < 2 powi (L + 1)" "- 1074 \<le> L - 52"
    and "\<bar>x / 2 powi (L - 52) - of_int n\<bar> < 1 / 2"
    and "(of_int n :: rat) * 2 powi (L - 52) < 2 ^ 1024"
  shows "round_to_double x = Finite (of_int n * 2 powi (L - 52))"
proof -
  have fl: "floor_log2 x = L" using assms(2,3) by (rule floor_log2_eqI)
  have e: "max (L - 52) (- 1074) = L - 52" using assms(4) by simp
  have n: "round_half_even (x / 2 powi (L - 52)) = n"
    using assms(5) by (rule round_half_even_eqI)
  have "round_to_double x =
      (if 2 ^ 1024 \<le> (of_int n :: rat) * 2 powi (L - 52) then PlusInfinity
       else Finite (of_int n * 2 powi (L - 52)))"
    using assms(1) by (simp add: round_to_double_def Let_def fl e n)
  then show ?thesis using assms(6) by (simp only: not_le [symmetric] if_False)
qed

lemma round_half_even_le:
  assumes "q \<le> of_int m"
  shows "round_half_even q \<le> m"
proof (cases "q = of_int m")
  case True
  then show ?thesis by (simp add: round_half_even_of_int)
next
  case False
  then have "q < of_int m" using assms by simp
  then have "\<lfloor>q\<rfloor> < m" by (simp add: floor_less_iff)
  moreover have "round_half_even q \<le> \<lfloor>q\<rfloor> + 1"
    by (simp add: round_half_even_def Let_def)
  ultimately show ?thesis by linarith
qed

text \<open>Rounding yields doubles: every finite Number that an operation returns is one.\<close>

lemma round_to_double_idem:
  assumes "round_to_double x = Finite y"
  shows "is_double y"
proof (cases "x = 0")
  case True
  then have "y = 0" using assms by (simp add: round_to_double_def)
  then show ?thesis by (simp add: is_double_def round_to_double_def)
next
  case False
  then have pos: "0 < \<bar>x\<bar>" by simp
  define L where "L = floor_log2 \<bar>x\<bar>"
  define e where "e = max (L - 52) (- 1074)"
  define n where "n = round_half_even (\<bar>x\<bar> / 2 powi e)"
  have p: "(0::rat) < 2 powi e" by simp
  have fin: "of_int n * 2 powi e < (2::rat) ^ 1024" and y: "y = sgn x * (of_int n * 2 powi e)"
    using assms False
    by (simp_all add: round_to_double_def Let_def L_def [symmetric] e_def [symmetric]
        n_def [symmetric] split: if_splits)
  have n0: "0 \<le> n" unfolding n_def using pos p by (intro round_half_even_ge) simp
  have "\<bar>x\<bar> < 2 powi (L + 1)" unfolding L_def using pos by (rule floor_log2_bounds(2))
  also have "(2::rat) powi (L + 1) \<le> 2 powi (53 + e)"
    by (intro power_int_increasing) (simp_all add: e_def)
  also have "(2::rat) powi (53 + e) = 2 powi 53 * 2 powi e" by (simp only: powi2_split)
  finally have "\<bar>x\<bar> / 2 powi e < 2 powi 53" using p by (simp add: divide_less_eq)
  then have "\<bar>x\<bar> / 2 powi e \<le> of_int (2 ^ 53)" by simp
  then have n53: "n \<le> 2 ^ 53" unfolding n_def by (rule round_half_even_le)
  define s :: int where "s = (if 0 < x then 1 else - 1)"
  have sx: "sgn x = of_int s" using False by (simp add: s_def sgn_if)
  have abs_y: "\<bar>y\<bar> < 2 ^ 1024" using fin n0 False p by (simp add: y abs_mult abs_sgn_eq)
  have ee: "- 1074 \<le> e" by (simp add: e_def)
  have "round_to_double y = Finite y"
  proof (cases "n = 2 ^ 53")
    case True
    have "y = of_int (s * 2 ^ 52) * 2 powi (e + 1)"
      by (simp add: y sx True power_int_add)
    moreover have "\<bar>s * 2 ^ 52\<bar> < (2::int) ^ 53" by (simp add: s_def)
    moreover have "- 1074 \<le> e + 1" using ee by simp
    ultimately show ?thesis using abs_y by (rule round_to_double_representable)
  next
    case False
    have "y = of_int (s * n) * 2 powi e" by (simp add: y sx)
    moreover have "\<bar>s * n\<bar> < 2 ^ 53" using n0 n53 False by (simp add: s_def abs_mult)
    ultimately show ?thesis using ee abs_y by (rule round_to_double_representable)
  qed
  then show ?thesis by (simp add: is_double_def)
qed

subsection \<open>The comparison of \<^verbatim>\<open>getLocationName\<close> is exact\<close>

text \<open>
  A double that is nearer than \<open>d\<close> to a centre \<open>c\<close> lies in the binade of \<open>c\<close>, so the
  difference is a multiple of the same unit and is a double itself: the subtraction does
  not round there. Elsewhere the rounded difference stays at or above \<open>d\<close>. Hence the
  test \<^verbatim>\<open>Math.abs(x - c) < d\<close> on doubles is the comparison of the exact values.
\<close>

lemma is_double_multiple:
  assumes dbl: "is_double x" and lo: "2 powi (E + 52) \<le> \<bar>x\<bar>" and hi: "\<bar>x\<bar> < 2 powi (E + 53)"
    and E: "- 1074 \<le> E"
  shows "\<exists>m. x = of_int m * 2 powi E"
proof -
  have "\<bar>x\<bar> < 2 powi (E + 52 + 1)" using hi by (simp add: add.commute add.left_commute)
  with lo have fl: "floor_log2 \<bar>x\<bar> = E + 52" by (rule floor_log2_eqI)
  have "(0::rat) < 2 powi (E + 52)" by simp
  then have "0 < \<bar>x\<bar>" using lo by linarith
  then have x0: "x \<noteq> 0" by simp
  define n where "n = round_half_even (\<bar>x\<bar> / 2 powi E)"
  have e: "max E (- 1074) = E" using E by simp
  have "round_to_double x = Finite x" using dbl by (simp add: is_double_def)
  then have "sgn x * (of_int n * 2 powi E) = x"
    using x0 by (simp add: round_to_double_def Let_def fl e n_def [symmetric] split: if_splits)
  then have "x = of_int (if 0 < x then n else - n) * 2 powi E"
    using x0 by (cases "0 < x") (simp_all add: sgn_if)
  then show ?thesis ..
qed

lemma band_exact:
  assumes dbl: "is_double x"
    and c: "c = of_int C * 2 powi E" and E: "- 1074 \<le> E"
    and near: "\<bar>x - c\<bar> < d \<Longrightarrow> 2 powi (E + 52) \<le> \<bar>x\<bar> \<and> \<bar>x\<bar> < 2 powi (E + 53)"
    and d: "0 < d" "d = of_int md * 2 powi (floor_log2 d - 52)" "- 1074 \<le> floor_log2 d - 52"
    and dsmall: "d \<le> 2 powi (E + 53)" "d < 2 ^ 1024"
  shows "number_less (Math_abs (subtract (Finite x) (Finite c))) (Finite d) \<longleftrightarrow> \<bar>x - c\<bar> < d"
proof (cases "\<bar>x - c\<bar> < d")
  case True
  from near [OF True] obtain m where m: "x = of_int m * 2 powi E"
    using is_double_multiple [OF dbl _ _ E] by blast
  have p: "(0::rat) < 2 powi E" by simp
  have diff: "x - c = of_int (m - C) * 2 powi E"
    by (simp add: m c algebra_simps)
  have "\<bar>of_int (m - C) :: rat\<bar> * 2 powi E = \<bar>x - c\<bar>"
    using p by (simp add: diff abs_mult del: of_int_diff)
  also have "\<dots> < 2 powi (53 + E)" using True dsmall(1) by (simp add: add.commute)
  also have "\<dots> = 2 powi 53 * 2 powi E" by (simp only: powi2_split)
  finally have "\<bar>of_int (m - C) :: rat\<bar> < 2 powi 53"
    using p by (simp only: mult_less_cancel_right_pos)
  then have "(of_int \<bar>m - C\<bar> :: rat) < of_int (2 ^ 53)" by simp
  then have mC: "\<bar>m - C\<bar> < 2 ^ 53" by (simp only: of_int_less_iff)
  have "\<bar>x - c\<bar> < 2 ^ 1024" using True dsmall(2) by linarith
  with diff mC E have "round_to_double (x - c) = Finite (x - c)"
    by (rule round_to_double_representable)
  then show ?thesis using True by simp
next
  case False
  then have "d \<le> \<bar>x - c\<bar>" by simp
  with d have "\<not> number_less (Math_abs (round_to_double (x - c))) (Finite d)"
    by (rule round_to_double_far)
  then show ?thesis using False by simp
qed

lemma literal_47_6062: "literal (476062 / 10000) = Finite double_47_6062"
  unfolding literal_def double_47_6062_def
  by (rule nearest_double [where L = 5 and n = 6699977018141416, simplified]) simp_all

lemma literal_0_1: "literal (1 / 10) = Finite double_0_1"
  unfolding literal_def double_0_1_def
  by (rule nearest_double [where L = "-4" and n = 7205759403792794, simplified]) simp_all

lemma literal_122_3321: "literal (1223321 / 10000) = Finite double_122_3321"
  unfolding literal_def double_122_3321_def
  by (rule nearest_double [where L = 6 and n = 8608356249616410, simplified]) simp_all

lemma floor_log2_double_0_1: "floor_log2 double_0_1 = - 4"
  by (rule floor_log2_eqI) (simp_all add: double_0_1_def)

lemma band_lat:
  assumes "is_double x"
  shows "number_less (Math_abs (subtract (Finite x) (Finite double_47_6062))) (Finite double_0_1)
         \<longleftrightarrow> \<bar>x - double_47_6062\<bar> < double_0_1"
proof (rule band_exact [OF assms, where C = 6699977018141416 and E = "- 47"
      and md = 7205759403792794])
  show "double_47_6062 = rat_of_int 6699977018141416 * 2 powi - 47"
    by (simp add: double_47_6062_def)
  show "\<bar>x - double_47_6062\<bar> < double_0_1 \<Longrightarrow>
      2 powi (- 47 + 52) \<le> \<bar>x\<bar> \<and> \<bar>x\<bar> < 2 powi (- 47 + 53)"
  proof -
    assume a: "\<bar>x - double_47_6062\<bar> < double_0_1"
    have "double_0_1 < 1" "47 < double_47_6062" "double_47_6062 < 48"
      by (simp_all add: double_47_6062_def double_0_1_def)
    with a have "32 \<le> \<bar>x\<bar> \<and> \<bar>x\<bar> < 64" by linarith
    then show ?thesis by simp
  qed
  show "double_0_1 = rat_of_int 7205759403792794 * 2 powi (floor_log2 double_0_1 - 52)"
    by (simp add: floor_log2_double_0_1) (simp add: double_0_1_def)
qed (simp_all add: floor_log2_double_0_1, simp_all add: double_0_1_def)

lemma band_lon:
  assumes "is_double x"
  shows "number_less (Math_abs (subtract (Finite x) (Finite (- double_122_3321)))) (Finite double_0_1)
         \<longleftrightarrow> \<bar>x - (- double_122_3321)\<bar> < double_0_1"
proof (rule band_exact [OF assms, where C = "- 8608356249616410" and E = "- 46"
      and md = 7205759403792794])
  show "- double_122_3321 = rat_of_int (- 8608356249616410) * 2 powi - 46"
    by (simp add: double_122_3321_def)
  show "\<bar>x - (- double_122_3321)\<bar> < double_0_1 \<Longrightarrow>
      2 powi (- 46 + 52) \<le> \<bar>x\<bar> \<and> \<bar>x\<bar> < 2 powi (- 46 + 53)"
  proof -
    assume a: "\<bar>x - (- double_122_3321)\<bar> < double_0_1"
    have "double_0_1 < 1" "122 < double_122_3321" "double_122_3321 < 123"
      by (simp_all add: double_122_3321_def double_0_1_def)
    with a have "64 \<le> \<bar>x\<bar> \<and> \<bar>x\<bar> < 128" by linarith
    then show ?thesis by simp
  qed
  show "double_0_1 = rat_of_int 7205759403792794 * 2 powi (floor_log2 double_0_1 - 52)"
    by (simp add: floor_log2_double_0_1) (simp add: double_0_1_def)
qed (simp_all add: floor_log2_double_0_1, simp_all add: double_0_1_def)

subsection \<open>\<^verbatim>\<open>toFixed(1)\<close> and the label\<close>

lemmas floor_numeral_div = floor_divide_of_int_eq [of "numeral a" "numeral b" for a b, simplified]

lemma decimal_nonempty: "decimal n \<noteq> []"
  by (subst decimal.simps) simp

lemma toFixed1_finite:
  assumes "\<bar>r\<bar> < 10 ^ 21"
  shows "toFixed1 h (Finite r) =
     (if r < 0 then ''-'' else []) @ decimal (nat \<lfloor>\<bar>r\<bar> * 10 + 1 / 2\<rfloor> div 10) @ ''.''
       @ [digit (nat \<lfloor>\<bar>r\<bar> * 10 + 1 / 2\<rfloor> mod 10)]"
proof -
  define n where "n = nat \<lfloor>\<bar>r\<bar> * 10 + 1 / 2\<rfloor>"
  define m where "m = (if length (decimal n) \<le> 1 then ''0'' @ decimal n else decimal n)"
  have m: "take (length m - 1) m = decimal (n div 10) \<and> drop (length m - 1) m = [digit (n mod 10)]"
  proof (cases "n < 10")
    case True
    then have "decimal n = [digit n]" by (subst decimal.simps) simp
    moreover have "decimal (n div 10) = ''0''"
      using True by (subst decimal.simps) (simp add: digit_def)
    ultimately show ?thesis using True by (simp add: m_def)
  next
    case False
    then have d: "decimal n = decimal (n div 10) @ [digit (n mod 10)]"
      by (subst decimal.simps) simp
    have "length (decimal (n div 10)) \<noteq> 0"
      using decimal_nonempty [of "n div 10"] by simp
    then have "1 \<le> length (decimal (n div 10))" by linarith
    then show ?thesis by (simp add: m_def d decimal_nonempty)
  qed
  have "toFixed1 h (Finite r) = (if r < 0 then ''-'' else []) @ take (length m - 1) m @ ''.''
      @ drop (length m - 1) m"
    using assms by (simp add: toFixed1_def Let_def n_def [symmetric] m_def)
  then show ?thesis using m unfolding n_def by simp
qed

lemma getLocationName_doubles:
  assumes "is_double la" "is_double lo"
  shows "getLocationName h (Some (Finite la)) (Some (Finite lo)) =
     Inr (if \<bar>la - double_47_6062\<bar> < double_0_1 \<and> \<bar>lo - (- double_122_3321)\<bar> < double_0_1
          then ''Seattle, WA''
          else toFixed1 h (Finite la) @ degree @ '', '' @ toFixed1 h (Finite lo) @ degree)"
  unfolding getLocationName_def ToNumber_def literal_47_6062 literal_0_1 literal_122_3321
    option.case negate.simps band_lat [OF assms(1)] band_lon [OF assms(2)]
  by simp

lemma getLocationName_undefined:
  "getLocationName h None lo = Inl TypeError"
  "getLocationName h (Some la) None = Inl TypeError"
  by (simp_all add: getLocationName_def ToNumber_def)

lemma getLocationName_numbers: "\<exists>name. getLocationName h (Some la) (Some lo) = Inr name"
  by (simp add: getLocationName_def)

lemma getLocationName_fails_iff:
  "getLocationName h la lo = Inl e \<longleftrightarrow> (la = None \<or> lo = None) \<and> e = TypeError"
proof (cases la)
  case None
  then show ?thesis by (auto simp: getLocationName_undefined)
next
  case (Some a)
  show ?thesis
  proof (cases lo)
    case None
    then show ?thesis using Some by (auto simp: getLocationName_undefined)
  next
    case (Some b)
    then show ?thesis
      using \<open>la = Some a\<close> getLocationName_numbers [of h a b] by auto
  qed
qed

lemma getLocationName_InrD:
  "getLocationName h la lo = Inr name \<Longrightarrow> la \<noteq> None \<and> lo \<noteq> None"
  using getLocationName_fails_iff [of h la lo TypeError] by auto

subsection \<open>Fetching and transforming\<close>

lemma processWeatherData_fails_iff:
  "processWeatherData h data = Inl e \<longleftrightarrow> unreadable data \<and> e = TypeError"
  by (auto simp: processWeatherData_def unreadable_def getLocationName_fails_iff
      dest: getLocationName_InrD split: option.splits sum.splits)

lemma processWeatherData_readable:
  "\<not> unreadable data \<Longrightarrow> \<exists>s. processWeatherData h data = Inr s"
  by (metis processWeatherData_fails_iff sum.exhaust_sel sum.collapse(1))

lemma fetchWeather_cases:
  "fetchWeather h la lo w =
     (case fetch h (apiUrl w) (params la lo) of
        FetchRejected e \<Rightarrow> (w, Inl e)
      | Response status body \<Rightarrow>
          if \<not> ok status then (w, Inl (Error (''Weather API error: '' @ decimal status)))
          else case body of
                 BodyRejected e \<Rightarrow> (w, Inl e)
               | Json data \<Rightarrow>
                   (w\<lparr>lastUpdate := Some (DateNow (clock_fetch h))\<rparr>,
                    processWeatherData h data))"
  by (simp add: fetchWeather_def Let_def split: fetch_outcome.splits body.splits)

lemma nearest_integer:
  fixes t :: rat
  shows "\<bar>t - of_int \<lfloor>t + 1 / 2\<rfloor>\<bar> \<le> \<bar>t - of_int k\<bar>"
proof -
  define n where "n = \<lfloor>t + 1 / 2\<rfloor>"
  have n: "of_int n \<le> t + 1 / 2" "t + 1 / 2 < of_int n + 1"
    by (simp_all add: n_def) linarith
  consider "k = n" | "k \<le> n - 1" | "n + 1 \<le> k" by linarith
  then show ?thesis
  proof cases
    case 1
    then show ?thesis by (simp add: n_def)
  next
    case 2
    then have "(of_int k :: rat) \<le> of_int (n - 1)" by (simp only: of_int_le_iff)
    then have "(of_int k :: rat) \<le> of_int n - 1" by simp
    then show ?thesis unfolding n_def [symmetric] using n by linarith
  next
    case 3
    then have "(of_int (n + 1) :: rat) \<le> of_int k" by (simp only: of_int_le_iff)
    then have "(of_int n :: rat) + 1 \<le> of_int k" by simp
    then show ?thesis unfolding n_def [symmetric] using n by linarith
  qed
qed

subsection \<open>The display and the configuration\<close>

lemma display_state_show:
  "display_state (showLoading w) = Some Loading"
  "display_state (showContent w) = Some Content"
  "display_state (showError w) = Some Failed"
  by (simp_all add: display_state_def visible_def showLoading_def showContent_def showError_def)

lemma exactly_one_iff: "exactly_one_visible w \<longleftrightarrow> display_state w \<noteq> None"
  by (auto simp: exactly_one_visible_def display_state_def split: bool.splits)

lemma same_display_state: "same_display w w' \<Longrightarrow> display_state w' = display_state w"
  by (simp add: same_display_def display_state_def visible_def)

lemma same_display_others:
  "same_display w (render h d w)"
  "same_display w (setupAutoRefresh w)"
  "same_display w (console_error e w)"
  "same_display w (fst (getLocation h w))"
  "same_display w (fst (fetchWeather h la lo w))"
  by (auto simp: same_display_def render_def setupAutoRefresh_def console_error_def
      getLocation_def fetchWeather_def Let_def
      split: option.splits geo_outcome.splits fetch_outcome.splits body.splits)

lemma display_state_kept:
  "display_state (render h d w) = display_state w"
  "display_state (setupAutoRefresh w) = display_state w"
  "display_state (console_error e w) = display_state w"
  "display_state (fst (getLocation h w)) = display_state w"
  "display_state (fst (fetchWeather h la lo w)) = display_state w"
  by (rule same_display_state, rule same_display_others)+

lemma display_state_init:
  "display_state (init h w) = Some Content \<or> display_state (init h w) = Some Failed"
  by (simp add: init_def Let_def display_state_show display_state_kept
      split: prod.splits sum.splits)

lemma config_kept:
  "config (showLoading w) = config w"
  "config (showContent w) = config w"
  "config (showError w) = config w"
  "config (render h d w) = config w"
  "config (setupAutoRefresh w) = config w"
  "config (console_error e w) = config w"
  "config (fst (getLocation h w)) = config w"
  "config (fst (fetchWeather h la lo w)) = config w"
  by (auto simp: showLoading_def showContent_def showError_def render_def setupAutoRefresh_def
      console_error_def getLocation_def fetchWeather_cases Let_def
      split: option.splits geo_outcome.splits fetch_outcome.splits body.splits)

lemma config_init: "config (init h w) = config w"
  by (simp add: init_def Let_def split_beta config_kept split: sum.splits)

subsection \<open>Cycles\<close>

lemma init_failed:
  assumes "\<And>url query. fetch h url query = FetchRejected e"
  shows "timers (init h w) = timers w" and "display_state (init h w) = Some Failed"
proof -
  have f: "fetchWeather h la lo w' = (w', Inl e)" for la lo w'
    using assms by (simp add: fetchWeather_cases)
  show "timers (init h w) = timers w"
    by (simp add: init_def Let_def f showError_def console_error_def showLoading_def
        getLocation_def split: prod.splits option.splits geo_outcome.splits)
  show "display_state (init h w) = Some Failed"
    by (simp add: init_def Let_def f display_state_show split: prod.splits)
qed

lemma init_succeeded:
  assumes "\<And>url query. fetch h url query = Response status (Json data)"
    and "ok status" and "\<not> unreadable data"
  shows "timers (init h w) = timers w @ [config.updateInterval (config w)]"
    and "display_state (init h w) = Some Content"
proof -
  obtain s where s: "processWeatherData h data = Inr s"
    using processWeatherData_readable [OF assms(3)] by blast
  have f: "fetchWeather h la lo w' =
      (w'\<lparr>lastUpdate := Some (DateNow (clock_fetch h))\<rparr>, Inr s)" for la lo w'
    using assms(1,2) s by (simp add: fetchWeather_cases)
  show "timers (init h w) = timers w @ [config.updateInterval (config w)]"
    by (simp add: init_def Let_def f setupAutoRefresh_def showContent_def render_def
        showLoading_def getLocation_def split: prod.splits option.splits geo_outcome.splits)
  show "display_state (init h w) = Some Content"
    by (simp add: init_def Let_def f display_state_show display_state_kept split: prod.splits)
qed

subsection \<open>The examples evaluated\<close>

lemma literal_21_6: "literal (216 / 10) = Finite (3039929748475085 / 140737488355328)"
  unfolding literal_def
  by (rule nearest_double [where L = 4 and n = 6079859496950170, simplified]) simp_all

lemma literal_40_7128: "literal (407128 / 10000) = Finite (2864908607956399 / 70368744177664)"
  unfolding literal_def
  by (rule nearest_double [where L = 5 and n = 5729817215912798, simplified]) simp_all

lemma literal_74_006: "literal (74006 / 1000) = Finite (2603854640806101 / 35184372088832)"
  unfolding literal_def
  by (rule nearest_double [where L = 6 and n = 5207709281612202, simplified]) simp_all

lemma is_double_40_7128: "is_double (2864908607956399 / 70368744177664)"
  using is_double_dyadic [of 2864908607956399 "- 46"] by simp

lemma is_double_74_006: "is_double (- (2603854640806101 / 35184372088832))"
  using is_double_dyadic [of "- 2603854640806101" "- 45"] by simp

lemma is_double_40_75: "is_double (163 / 4)"
  using is_double_dyadic [of 163 "- 2"] by simp

lemma is_double_74: "is_double (- 74)"
  using is_double_dyadic [of "- 74" 0] by simp

lemma toFixed1_40_7128: "toFixed1 h (Finite (2864908607956399 / 70368744177664)) = ''40.7''"
  by (subst toFixed1_finite) (simp_all add: decimal.simps digit_def floor_divide_of_int_eq [of "numeral a" "numeral b" for a b, simplified])

lemma toFixed1_74_006: "toFixed1 h (Finite (- (2603854640806101 / 35184372088832))) = ''-74.0''"
  by (subst toFixed1_finite) (simp_all add: decimal.simps digit_def floor_numeral_div)

lemma toFixed1_40_75: "toFixed1 h (Finite (163 / 4)) = ''40.8''"
  by (subst toFixed1_finite) (simp_all add: decimal.simps digit_def floor_numeral_div)

lemma toFixed1_74: "toFixed1 h (Finite (- 74)) = ''-74.0''"
  by (subst toFixed1_finite) (simp_all add: decimal.simps digit_def floor_numeral_div)

lemma getLocationName_new_york:
  "getLocationName h (Some (literal (407128 / 10000))) (Some (negate (literal (74006 / 1000))))
   = Inr (''40.7'' @ degree @ '', -74.0'' @ degree)"
  unfolding literal_40_7128 literal_74_006 negate.simps
  by (subst getLocationName_doubles [OF is_double_40_7128 is_double_74_006])
    (simp add: toFixed1_40_7128 toFixed1_74_006 double_47_6062_def double_0_1_def)

lemma getLocationName_full:
  "getLocationName h (Some (Finite (163 / 4))) (Some (Finite (- 74)))
   = Inr (''40.8'' @ degree @ '', -74.0'' @ degree)"
  by (subst getLocationName_doubles [OF is_double_40_75 is_double_74])
    (simp add: toFixed1_40_75 toFixed1_74 double_47_6062_def double_0_1_def)

lemma Math_round_21_6: "Math_round (literal (216 / 10)) = Finite 22"
  unfolding literal_21_6 by (simp add: floor_numeral_div)

lemma Math_round_21_6_reduced: "Math_round (literal (108 / 5)) = Finite 22"
  using Math_round_21_6 by simp

lemma Math_round_12_5: "Math_round (Finite (25 / 2)) = Finite 13"
  by (simp add: floor_numeral_div)

lemma processWeatherData_full:
  "processWeatherData h full_response =
     Inr \<lparr>temperature = Finite 22,
          windSpeed = Finite 13,
          windDirection = Some (Finite 270),
          weatherCode = Some 61,
          time = NewDate (Some ''2024-05-01T12:00''),
          humidity = Some (Finite 81),
          sunrise = NewDate (Some ''2024-05-01T05:55''),
          sunset = NewDate (Some ''2024-05-01T19:50''),
          location = ''40.8'' @ degree @ '', -74.0'' @ degree\<rparr>"
  by (simp add: processWeatherData_def full_response_def full_current_def getLocationName_full
      first_def ToNumber_def Math_round_21_6_reduced Math_round_12_5)

lemma processWeatherData_no_temperature:
  "processWeatherData h no_temperature =
     Inr \<lparr>temperature = NaN,
          windSpeed = Finite 13,
          windDirection = Some (Finite 270),
          weatherCode = Some 61,
          time = NewDate (Some ''2024-05-01T12:00''),
          humidity = Some (Finite 81),
          sunrise = NewDate (Some ''2024-05-01T05:55''),
          sunset = NewDate (Some ''2024-05-01T19:50''),
          location = ''40.8'' @ degree @ '', -74.0'' @ degree\<rparr>"
  by (simp add: processWeatherData_def no_temperature_def full_response_def full_current_def
      getLocationName_full first_def ToNumber_def Math_round_12_5)

lemma host_answering_simps:
  "fetch (host_answering b) url query = Response 200 b"
  "geolocation (host_answering b) = None"
  "clock_fetch (host_answering b) = 1714564800"
  "clock_render (host_answering b) = 1714564801"
  by (simp_all add: host_answering_def)

lemma host_offline_simps:
  "fetch host_offline url query = FetchRejected TypeError"
  "geolocation host_offline = None"
  by (simp_all add: host_offline_def host_answering_def)

lemma host_unavailable_simps:
  "fetch host_unavailable url query = Response 503 (BodyRejected SyntaxError)"
  "geolocation host_unavailable = None"
  by (simp_all add: host_unavailable_def host_answering_def)

lemma ok_200: "ok 200"
  by (simp add: ok_def)

lemma not_ok_503: "\<not> ok 503"
  by (simp add: ok_def)

lemma decimal_503: "decimal 503 = ''503''"
  by (simp add: decimal.simps digit_def)

lemma unreadable_examples:
  "\<not> unreadable full_response" "\<not> unreadable no_temperature" "unreadable no_current"
  "\<not> unreadable new_york_response"
  by (simp_all add: unreadable_def full_response_def no_temperature_def no_current_def
      new_york_response_def)

lemma config_constructed:
  "config (constructed page no_options) =
     \<lparr>defaultLat = Finite double_47_6062, defaultLon = Finite (- double_122_3321),
      units = ''celsius'', updateInterval = 600000\<rparr>"
  unfolding constructed_def no_options_def options.simps option.case literal_47_6062
    literal_122_3321 negate.simps
  by simp

section \<open>The claims\<close>

subsection \<open>C1: the table of descriptions\<close>

text \<open>
  Claim C1, as stated: on every code of the table \<open>getWeatherDescription\<close> returns the
  description the specification's table gives. It fails at code 53, where the code answers
  ``Drizzle'' and the specification's table says ``Moderate drizzle''.
\<close>

theorem description_53_counterexample:
  "getWeatherDescription 53 = ''Drizzle''
   \<and> map_of spec_descriptions 53 = Some ''Moderate drizzle''
   \<and> Some (getWeatherDescription 53) \<noteq> map_of spec_descriptions 53"
  by (simp add: getWeatherDescription_def lookup_or_def descriptions_def spec_descriptions_def)

text \<open>
  Claim C1, amended: on the eighteen codes of the table, in ascending order,
  \<open>getWeatherDescription\<close> returns the descriptions of the source's own table: Clear sky,
  Mainly clear, Partly cloudy, Overcast, Foggy (45 and 48), Light drizzle, Drizzle, Heavy
  drizzle, Light rain, Rain, Heavy rain, Light snow, Snow, Heavy snow, Thunderstorm (95 and
  96) and Severe thunderstorm (99).
\<close>

theorem description_table:
  "map getWeatherDescription table_codes =
     [''Clear sky'', ''Mainly clear'', ''Partly cloudy'', ''Overcast'', ''Foggy'', ''Foggy'',
      ''Light drizzle'', ''Drizzle'', ''Heavy drizzle'', ''Light rain'', ''Rain'', ''Heavy rain'',
      ''Light snow'', ''Snow'', ''Heavy snow'', ''Thunderstorm'', ''Thunderstorm'',
      ''Severe thunderstorm'']"
  by (simp add: getWeatherDescription_def lookup_or_def descriptions_def table_codes_def)

subsection \<open>C2: the refresh timer\<close>

text \<open>
  Claim C2 says that the timer is armed exactly once at startup, that a cycle ending in
  the Error state (the first one included) is still followed by a scheduled cycle, and that
  a successful cycle arms no further timer. \<open>init\<close> arms the interval timer itself, at
  the end of its successful branch only, and every tick runs \<open>init\<close>. So at a startup
  whose fetch is rejected no timer is armed at all and the widget stays in the Error state,
  while a startup that succeeds arms one timer and the first tick that succeeds arms a
  second one beside it.
\<close>

theorem timer_armed_by_each_successful_cycle:
  "timers (WeatherWidget host_offline page no_options) = []
   \<and> display_state (WeatherWidget host_offline page no_options) = Some Failed
   \<and> timers (WeatherWidget (host_answering (Json full_response)) page no_options) = [600000]
   \<and> timers (init (host_answering (Json full_response))
        (WeatherWidget (host_answering (Json full_response)) page no_options))
      = [600000, 600000]"
proof -
  let ?ok = "host_answering (Json full_response)"
  have c: "config.updateInterval (config (init h w)) = config.updateInterval (config w)" for h w
    by (simp add: config_init)
  have i: "config.updateInterval (config (constructed page no_options)) = 600000"
    "timers (constructed page no_options) = []"
    by (simp_all add: constructed_def no_options_def)
  have ok: "timers (init ?ok w) = timers w @ [config.updateInterval (config w)]" for w
    by (rule init_succeeded(1) [where status = 200 and data = full_response])
      (simp_all add: host_answering_simps ok_200 unreadable_examples)
  have off: "timers (init host_offline w) = timers w"
    "display_state (init host_offline w) = Some Failed" for w
    by (rule init_failed [where e = TypeError], simp add: host_offline_simps)+
  show ?thesis
    by (simp add: WeatherWidget_def ok off i c)
qed

subsection \<open>C3: the location label\<close>

text \<open>
  Claim C3, as stated: the label is the friendly one exactly when the coordinates are
  within 0.1 degrees of the configured default location. With New York (40.7128, -74.006)
  configured as the default and the coordinates equal to that default, the specification's
  label is the friendly one, and \<open>getLocationName\<close> answers ``40.7 degrees, -74.0
  degrees''.
\<close>

theorem configured_default_counterexample:
  "getLocationName host_offline (Some (config.defaultLat new_york)) (Some (config.defaultLon new_york))
     = Inr (''40.7'' @ degree @ '', -74.0'' @ degree)
   \<and> spec_locationLabel host_offline new_york (config.defaultLat new_york) (config.defaultLon new_york)
     = ''Seattle, WA''"
proof -
  have "spec_locationLabel host_offline new_york (config.defaultLat new_york)
      (config.defaultLon new_york) = ''Seattle, WA''"
    unfolding spec_locationLabel_def new_york_def literal_40_7128 literal_74_006 literal_0_1
    by (simp add: round_to_double_def double_0_1_def)
  moreover have "getLocationName host_offline (Some (config.defaultLat new_york))
      (Some (config.defaultLon new_york)) = Inr (''40.7'' @ degree @ '', -74.0'' @ degree)"
    unfolding new_york_def by (simp only: config.simps getLocationName_new_york)
  ultimately show ?thesis by blast
qed

text \<open>
  Claim C3, amended: the label of the snapshot is computed from the latitude and longitude
  that the response reports, and from nothing of the configuration. When these are doubles,
  the label is ``Seattle, WA'' exactly when the latitude is nearer than the double of 0.1
  to the double of 47.6062 and the longitude is nearer than the double of 0.1 to the double
  of -122.3321 (strict comparisons of the exact values); otherwise it is the latitude
  under \<^verbatim>\<open>toFixed(1)\<close>, the degree sign, a comma and a space, the longitude under
  \<^verbatim>\<open>toFixed(1)\<close> and the degree sign. The witness is the example of the claim: 40.7128
  and -74.006 give ``40.7 degrees, -74.0 degrees''.
\<close>

theorem location_label:
  assumes "processWeatherData h data = Inr s"
    and "latitude data = Some (Finite la)" and "longitude data = Some (Finite lo)"
    and "is_double la" and "is_double lo"
  shows "location s =
     (if \<bar>la - double_47_6062\<bar> < double_0_1 \<and> \<bar>lo - (- double_122_3321)\<bar> < double_0_1
      then ''Seattle, WA''
      else toFixed1 h (Finite la) @ degree @ '', '' @ toFixed1 h (Finite lo) @ degree)"
proof -
  have "getLocationName h (latitude data) (longitude data) = Inr (location s)"
    using assms(1) by (auto simp: processWeatherData_def split: option.splits sum.splits)
  then show ?thesis
    unfolding assms(2,3) getLocationName_doubles [OF assms(4,5)] by simp
qed

theorem location_label_witness:
  "\<exists>s. processWeatherData host_offline new_york_response = Inr s
       \<and> latitude new_york_response = Some (Finite (2864908607956399 / 70368744177664))
       \<and> longitude new_york_response = Some (Finite (- (2603854640806101 / 35184372088832)))
       \<and> is_double (2864908607956399 / 70368744177664)
       \<and> is_double (- (2603854640806101 / 35184372088832))
       \<and> location s = ''40.7'' @ degree @ '', -74.0'' @ degree"
proof -
  obtain s where s: "processWeatherData host_offline new_york_response = Inr s"
    using processWeatherData_readable [OF unreadable_examples(4)] by blast
  have la: "latitude new_york_response = Some (Finite (2864908607956399 / 70368744177664))"
    unfolding new_york_response_def literal_40_7128 by simp
  have lo: "longitude new_york_response
      = Some (Finite (- (2603854640806101 / 35184372088832)))"
    unfolding new_york_response_def literal_74_006 negate.simps by simp
  from location_label [OF s la lo is_double_40_7128 is_double_74_006]
  have "location s = ''40.7'' @ degree @ '', -74.0'' @ degree"
    by (simp add: toFixed1_40_7128 toFixed1_74_006 double_47_6062_def double_0_1_def)
  with s la lo is_double_40_7128 is_double_74_006 show ?thesis by blast
qed

subsection \<open>C4: the failures of the fetch\<close>

text \<open>
  Claim C4, as stated: the operation fails with a parse error exactly when the body lacks an
  expected field, and a success is a fully populated snapshot. A body that lacks only the
  temperature is answered with a snapshot, whose temperature is \<^verbatim>\<open>NaN\<close>.
\<close>

theorem missing_temperature_counterexample:
  "missing_expected_field no_temperature
   \<and> fetchWeather (host_answering (Json no_temperature)) (Finite (163 / 4)) (Finite (- 74))
        (constructed page no_options)
     = ((constructed page no_options)\<lparr>lastUpdate := Some (DateNow 1714564800)\<rparr>,
        Inr \<lparr>temperature = NaN,
             windSpeed = Finite 13,
             windDirection = Some (Finite 270),
             weatherCode = Some 61,
             time = NewDate (Some ''2024-05-01T12:00''),
             humidity = Some (Finite 81),
             sunrise = NewDate (Some ''2024-05-01T05:55''),
             sunset = NewDate (Some ''2024-05-01T19:50''),
             location = ''40.8'' @ degree @ '', -74.0'' @ degree\<rparr>)"
proof -
  have "missing_expected_field no_temperature"
    by (simp add: missing_expected_field_def no_temperature_def full_response_def
        full_current_def)
  then show ?thesis
    by (simp add: fetchWeather_cases host_answering_simps ok_200
        processWeatherData_no_temperature)
qed

text \<open>
  Claim C4, amended: \<open>fetchWeather\<close> fails with the reason of the rejection when
  \<^verbatim>\<open>fetch\<close> rejects; with the \<^verbatim>\<open>Error\<close> ``Weather API error: '' followed by the
  status when the status is outside 200 to 299; with the reason of the rejection when the
  body is not JSON; with a \<^verbatim>\<open>TypeError\<close> when the body lacks \<^verbatim>\<open>current_weather\<close>,
  \<^verbatim>\<open>hourly\<close>, \<^verbatim>\<open>hourly.relative_humidity_2m\<close>, \<^verbatim>\<open>daily\<close>,
  \<^verbatim>\<open>daily.sunrise\<close>, \<^verbatim>\<open>daily.sunset\<close>, \<^verbatim>\<open>latitude\<close> or
  \<^verbatim>\<open>longitude\<close>; and it returns a snapshot in every other case.
\<close>

theorem fetchWeather_outcomes:
  "(fetch h (apiUrl w) (params la lo) = FetchRejected e \<longrightarrow>
      fetchWeather h la lo w = (w, Inl e))
   \<and> (fetch h (apiUrl w) (params la lo) = Response status b \<and> \<not> ok status \<longrightarrow>
      fetchWeather h la lo w = (w, Inl (Error (''Weather API error: '' @ decimal status))))
   \<and> (fetch h (apiUrl w) (params la lo) = Response status (BodyRejected e) \<and> ok status \<longrightarrow>
      fetchWeather h la lo w = (w, Inl e))
   \<and> (fetch h (apiUrl w) (params la lo) = Response status (Json data) \<and> ok status
        \<and> unreadable data \<longrightarrow>
      snd (fetchWeather h la lo w) = Inl TypeError)
   \<and> (fetch h (apiUrl w) (params la lo) = Response status (Json data) \<and> ok status
        \<and> \<not> unreadable data \<longrightarrow>
      (\<exists>s. snd (fetchWeather h la lo w) = Inr s))"
  using processWeatherData_readable [of data h]
  by (auto simp: fetchWeather_cases processWeatherData_fails_iff)

theorem fetchWeather_outcomes_witness:
  "fetchWeather host_offline (Finite 1) (Finite 2) (constructed page no_options)
     = (constructed page no_options, Inl TypeError)
   \<and> fetchWeather host_unavailable (Finite 1) (Finite 2) (constructed page no_options)
     = (constructed page no_options, Inl (Error ''Weather API error: 503''))
   \<and> fetchWeather (host_answering (BodyRejected SyntaxError)) (Finite 1) (Finite 2)
        (constructed page no_options)
     = (constructed page no_options, Inl SyntaxError)
   \<and> snd (fetchWeather (host_answering (Json no_current)) (Finite 1) (Finite 2)
        (constructed page no_options)) = Inl TypeError
   \<and> (\<exists>s. snd (fetchWeather (host_answering (Json full_response)) (Finite 1) (Finite 2)
        (constructed page no_options)) = Inr s)"
  using
    fetchWeather_outcomes [of host_offline "constructed page no_options" "Finite 1" "Finite 2"
      TypeError]
    fetchWeather_outcomes [of host_unavailable "constructed page no_options" "Finite 1" "Finite 2"
      _ 503 "BodyRejected SyntaxError"]
    fetchWeather_outcomes [of "host_answering (BodyRejected SyntaxError)"
      "constructed page no_options" "Finite 1" "Finite 2" SyntaxError 200]
    fetchWeather_outcomes [of "host_answering (Json no_current)"
      "constructed page no_options" "Finite 1" "Finite 2" _ 200 _ no_current]
    fetchWeather_outcomes [of "host_answering (Json full_response)"
      "constructed page no_options" "Finite 1" "Finite 2" _ 200 _ full_response]
  by (simp add: host_answering_simps host_offline_simps host_unavailable_simps ok_200 not_ok_503
      decimal_503 unreadable_examples)

subsection \<open>C5: one display state\<close>

text \<open>
  Claim C5: after each of \<open>showLoading\<close>, \<open>showContent\<close> and \<open>showError\<close>, whatever
  the display was before, exactly one of the three elements is visible; the other methods
  leave the display as it is; so exactly one element is visible after the constructor and
  after every cycle.
\<close>

theorem one_display_state:
  "exactly_one_visible (showLoading w)
   \<and> exactly_one_visible (showContent w)
   \<and> exactly_one_visible (showError w)
   \<and> (exactly_one_visible w \<longrightarrow>
        exactly_one_visible (render h d w)
        \<and> exactly_one_visible (setupAutoRefresh w)
        \<and> exactly_one_visible (console_error e w)
        \<and> exactly_one_visible (fst (getLocation h w))
        \<and> exactly_one_visible (fst (fetchWeather h la lo w)))
   \<and> exactly_one_visible (init h w)
   \<and> exactly_one_visible (WeatherWidget h doc opts)"
proof -
  have "exactly_one_visible (init h' w')" for h' w'
    using display_state_init [of h' w'] by (auto simp: exactly_one_iff)
  then show ?thesis
    by (simp add: exactly_one_iff display_state_show display_state_kept WeatherWidget_def)
qed

theorem one_display_state_witness:
  "exactly_one_visible (showLoading (constructed page no_options))
   \<and> exactly_one_visible (setupAutoRefresh (showLoading (constructed page no_options)))
   \<and> exactly_one_visible (console_error TypeError (showLoading (constructed page no_options)))"
  using one_display_state [of "constructed page no_options"]
    one_display_state [of "showLoading (constructed page no_options)" _ _ TypeError]
  by blast

subsection \<open>C6: rounded temperature and wind speed\<close>

text \<open>
  Claim C6, as stated: for every response the temperature and the wind speed of the
  snapshot are integers. On the response that lacks the temperature,
  \<^verbatim>\<open>Math.round(undefined)\<close> is \<^verbatim>\<open>NaN\<close>: \<open>processWeatherData\<close> returns a
  snapshot, and its temperature is not an integer.
\<close>

theorem temperature_not_integer_counterexample:
  "processWeatherData host_offline no_temperature =
     Inr \<lparr>temperature = NaN,
          windSpeed = Finite 13,
          windDirection = Some (Finite 270),
          weatherCode = Some 61,
          time = NewDate (Some ''2024-05-01T12:00''),
          humidity = Some (Finite 81),
          sunrise = NewDate (Some ''2024-05-01T05:55''),
          sunset = NewDate (Some ''2024-05-01T19:50''),
          location = ''40.8'' @ degree @ '', -74.0'' @ degree\<rparr>
   \<and> \<not> is_integer NaN"
  by (simp add: processWeatherData_no_temperature is_integer_def)

text \<open>
  Claim C6, amended: when the response gives the temperature and the wind speed as finite
  numbers, the snapshot holds for each the integer \<open>\<lfloor>x + 1/2\<rfloor>\<close>, and no integer is
  nearer to the source value. The witness rounds 21.6 to 22 and 12.5 to 13.
\<close>

theorem rounded_to_nearest:
  assumes "processWeatherData h data = Inr s"
    and "current_weather data = Some current"
    and "current_weather.temperature current = Some (Finite t)"
    and "windspeed current = Some (Finite v)"
  shows "snapshot.temperature s = Finite (of_int \<lfloor>t + 1 / 2\<rfloor>)
         \<and> windSpeed s = Finite (of_int \<lfloor>v + 1 / 2\<rfloor>)
         \<and> is_integer (snapshot.temperature s)
         \<and> is_integer (windSpeed s)
         \<and> (\<forall>k. \<bar>t - of_int \<lfloor>t + 1 / 2\<rfloor>\<bar> \<le> \<bar>t - of_int k\<bar>)
         \<and> (\<forall>k. \<bar>v - of_int \<lfloor>v + 1 / 2\<rfloor>\<bar> \<le> \<bar>v - of_int k\<bar>)"
  using assms
  by (auto simp: processWeatherData_def ToNumber_def nearest_integer is_integer_def
      split: option.splits sum.splits)

theorem rounded_to_nearest_witness:
  "\<exists>s. processWeatherData host_offline full_response = Inr s
       \<and> current_weather full_response = Some full_current
       \<and> current_weather.temperature full_current
           = Some (Finite (3039929748475085 / 140737488355328))
       \<and> windspeed full_current = Some (Finite (25 / 2))
       \<and> snapshot.temperature s = Finite 22
       \<and> windSpeed s = Finite 13
       \<and> is_integer (snapshot.temperature s)
       \<and> is_integer (windSpeed s)"
proof -
  obtain s where s: "processWeatherData host_offline full_response = Inr s"
    using processWeatherData_readable [OF unreadable_examples(1)] by blast
  have c: "current_weather full_response = Some full_current"
    by (simp add: full_response_def)
  have t: "current_weather.temperature full_current
      = Some (Finite (3039929748475085 / 140737488355328))"
    by (simp only: full_current_def current_weather.simps literal_21_6)
  have v: "windspeed full_current = Some (Finite (25 / 2))"
    by (simp add: full_current_def)
  from rounded_to_nearest [OF s c t v]
  have "snapshot.temperature s = Finite 22 \<and> windSpeed s = Finite 13
      \<and> is_integer (snapshot.temperature s) \<and> is_integer (windSpeed s)"
    by (simp add: floor_numeral_div is_integer_def)
  with s c t v show ?thesis by blast
qed

subsection \<open>C7: codes outside the table\<close>

text \<open>
  Claim C7: for every integer code outside the table, \<open>getWeatherIcon\<close> returns the
  default glyph (sun behind small cloud, the glyph of code 1) and \<open>getWeatherDescription\<close>
  returns ``Unknown''; code 61 gives the cloud-with-rain glyph (bytes F0 9F 8C A7 EF B8 8F)
  and ``Light rain''; code 200 gives the defaults.
\<close>

theorem unknown_codes:
  "(\<forall>c. c \<notin> set table_codes \<longrightarrow>
      getWeatherIcon c = sun_behind_small_cloud \<and> getWeatherDescription c = ''Unknown'')
   \<and> getWeatherIcon 61 = [CHR 0xF0, CHR 0x9F, CHR 0x8C, CHR 0xA7, CHR 0xEF, CHR 0xB8, CHR 0x8F]
   \<and> getWeatherDescription 61 = ''Light rain''
   \<and> getWeatherIcon 200 = sun_behind_small_cloud
   \<and> getWeatherDescription 200 = ''Unknown''"
  by (simp add: getWeatherIcon_def getWeatherDescription_def lookup_or_def iconMap_absent
      descriptions_absent)
     (simp add: iconMap_def descriptions_def glyph_defs)

theorem unknown_codes_witness:
  "(200::int) \<notin> set table_codes \<and> getWeatherIcon 200 = sun_behind_small_cloud
     \<and> getWeatherDescription 200 = ''Unknown''"
  using unknown_codes by (simp add: table_codes_def)

subsection \<open>C8: the location is always resolved\<close>

text \<open>
  Claim C8: \<open>getLocation\<close> is a total function to coordinates. It returns the position
  that the device reports, the configured default unchanged when the device reports an
  error of any code (denial, unavailability, timeout), and the configured default without
  any request when the host has no geolocation; a request, when made, carries the timeout
  of 5000 milliseconds.
\<close>

theorem getLocation_resolves:
  "(geolocation h = Some (Position la lo) \<longrightarrow>
      snd (getLocation h w) = \<lparr>lat = la, lon = lo\<rparr>)
   \<and> (geolocation h = Some (PositionError code) \<longrightarrow>
      snd (getLocation h w) =
        \<lparr>lat = config.defaultLat (config w), lon = config.defaultLon (config w)\<rparr>)
   \<and> (geolocation h = None \<longrightarrow>
      getLocation h w =
        (w, \<lparr>lat = config.defaultLat (config w), lon = config.defaultLon (config w)\<rparr>))
   \<and> (geolocation h \<noteq> None \<longrightarrow>
      geolocation_requests (fst (getLocation h w)) = geolocation_requests w @ [5000])"
  by (auto simp: getLocation_def Let_def split: option.splits geo_outcome.splits)

theorem getLocation_resolves_witness:
  "snd (getLocation (host_offline\<lparr>geolocation := Some (Position (Finite 1) (Finite 2))\<rparr>)
        (constructed page no_options))
     = \<lparr>lat = Finite 1, lon = Finite 2\<rparr>
   \<and> snd (getLocation (host_offline\<lparr>geolocation := Some (PositionError 3)\<rparr>)
        (constructed page no_options))
     = \<lparr>lat = Finite double_47_6062, lon = Finite (- double_122_3321)\<rparr>
   \<and> getLocation host_offline (constructed page no_options)
     = (constructed page no_options,
        \<lparr>lat = Finite double_47_6062, lon = Finite (- double_122_3321)\<rparr>)
   \<and> geolocation_requests
        (fst (getLocation (host_offline\<lparr>geolocation := Some (PositionError 3)\<rparr>)
          (constructed page no_options)))
     = geolocation_requests (constructed page no_options) @ [5000]"
  using
    getLocation_resolves [of "host_offline\<lparr>geolocation := Some (Position (Finite 1) (Finite 2))\<rparr>"
      "Finite 1" "Finite 2" "constructed page no_options"]
    getLocation_resolves [of "host_offline\<lparr>geolocation := Some (PositionError 3)\<rparr>"
      _ _ "constructed page no_options" 3]
    getLocation_resolves [of host_offline _ _ "constructed page no_options"]
  by (simp add: host_offline_simps config_constructed)

subsection \<open>C9: first elements of the series\<close>

text \<open>
  Claim C9: on a response that has every container and non-empty series,
  \<open>processWeatherData\<close> returns a snapshot whose humidity is the first element of the
  hourly humidity series, whatever follows it, and whose sunrise and sunset are the dates
  made from the first elements of the daily series.
\<close>

theorem first_elements:
  "\<exists>s. processWeatherData h
         \<lparr>latitude = Some la, longitude = Some lo, current_weather = Some cw,
          hourly = Some \<lparr>relative_humidity_2m = Some (x # xs)\<rparr>,
          daily = Some \<lparr>daily.sunrise = Some (r # rs), daily.sunset = Some (t # ts)\<rparr>\<rparr>
        = Inr s
      \<and> humidity s = Some x
      \<and> snapshot.sunrise s = NewDate (Some r)
      \<and> snapshot.sunset s = NewDate (Some t)"
proof -
  obtain name where "getLocationName h (Some la) (Some lo) = Inr name"
    using getLocationName_numbers by blast
  then show ?thesis by (simp add: processWeatherData_def first_def)
qed

subsection \<open>C10: \<^verbatim>\<open>lastUpdate\<close> is written before the fields are read\<close>

text \<open>
  Claim C10: when the status is successful and the body parses, \<open>fetchWeather\<close> has set
  \<open>lastUpdate\<close> to the reading of the clock even if \<open>processWeatherData\<close> then fails;
  the cycle ends in the Error state with \<open>lastUpdate\<close> changed.
\<close>

theorem lastUpdate_written_before_extraction:
  assumes "\<And>url query. fetch h url query = Response status (Json data)"
    and "ok status"
    and "processWeatherData h data = Inl e"
  shows "fetchWeather h la lo w = (w\<lparr>lastUpdate := Some (DateNow (clock_fetch h))\<rparr>, Inl e)
         \<and> lastUpdate (init h w) = Some (DateNow (clock_fetch h))
         \<and> display_state (init h w) = Some Failed"
proof -
  have f: "fetchWeather h la' lo' w' =
      (w'\<lparr>lastUpdate := Some (DateNow (clock_fetch h))\<rparr>, Inl e)" for la' lo' w'
    using assms by (simp add: fetchWeather_cases)
  have "lastUpdate (init h w) = Some (DateNow (clock_fetch h))"
    by (simp add: init_def Let_def f showError_def console_error_def split: prod.splits)
  moreover have "display_state (init h w) = Some Failed"
    by (simp add: init_def Let_def f display_state_show split: prod.splits)
  ultimately show ?thesis using f by simp
qed

theorem lastUpdate_written_before_extraction_witness:
  "fetch (host_answering (Json no_current)) [] [] = Response 200 (Json no_current)
   \<and> ok 200
   \<and> processWeatherData (host_answering (Json no_current)) no_current = Inl TypeError
   \<and> lastUpdate (constructed page no_options) = None
   \<and> fetchWeather (host_answering (Json no_current)) (Finite 1) (Finite 2)
        (constructed page no_options)
     = ((constructed page no_options)
          \<lparr>lastUpdate := Some (DateNow (clock_fetch (host_answering (Json no_current))))\<rparr>,
        Inl TypeError)
   \<and> lastUpdate (init (host_answering (Json no_current)) (constructed page no_options))
     = Some (DateNow (clock_fetch (host_answering (Json no_current))))"
proof -
  have p: "processWeatherData (host_answering (Json no_current)) no_current = Inl TypeError"
    by (simp add: processWeatherData_fails_iff unreadable_examples)
  have n: "lastUpdate (constructed page no_options) = None"
    by (simp add: constructed_def)
  from lastUpdate_written_before_extraction
    [of "host_answering (Json no_current)" 200 no_current TypeError "Finite 1" "Finite 2"
      "constructed page no_options", OF host_answering_simps(1) ok_200 p]
  show ?thesis using p n by (simp add: host_answering_simps ok_200)
qed

end
